theory Spec2Isabelle
  imports Main
begin

section \<open>Data model\<close>

text \<open>
  The task executor (class \<open>TaskExecutor\<close>) drives one task through request rounds.
  Its private fields, together with the two lists of the state manager it reads and
  writes (\<open>claudeMessages\<close> and \<open>apiConversationHistory\<close>), form the record
  \<open>executor\<close>. Calls into collaborators whose effect lies outside the executor (the
  ask register, the tool executor, the network layer, the webview) are recorded, in
  call order, in the field \<open>events\<close>; the values those collaborators hand back
  (timestamps, stream chunks, tool results, the user's answers) are arguments of the
  functions. Methods run to completion one after the other: interleavings of two
  methods at an \<open>await\<close> are not part of the model. Logging (\<open>logState\<close>,
  \<open>logError\<close>, the console) is left out.

  Strings are lists of 8-bit characters, read as code units below 256; timestamps
  and message identities are integers (\<open>Date.now()\<close>).
\<close>

datatype TaskState =
  IDLE | WAITING_FOR_API | PROCESSING_RESPONSE | WAITING_FOR_USER | COMPLETED | ABORTED

datatype ContentBlock = TextBlock string | ImageBlock string

type_synonym UserContent = "ContentBlock list"

datatype Content = ContentString string | ContentBlocks "ContentBlock list"

datatype Role = User | Assistant

record ApiHistoryItem =
  role :: Role
  hist_ts :: "int option"
  content :: Content

datatype MessageType = Ask | Say

datatype ClaudeAsk =
  Ask_tool | Ask_resume_task | Ask_api_req_failed | Ask_request_limit_reached
  | Ask_command | Ask_command_output | Ask_completion_result | Ask_resume_completed_task

datatype ClaudeSay =
  Say_api_req_started | Say_text | Say_user_feedback | Say_payment_required
  | Say_unauthorized | Say_api_req_retried | Say_api_req_finished | Say_error

record ApiMetrics =
  cost :: int
  inputTokens :: int
  outputTokens :: int
  inputCacheRead :: int
  inputCacheWrite :: int

record ClaudeMessage =
  ts :: int
  msg_type :: MessageType
  ask :: "ClaudeAsk option"
  say :: "ClaudeSay option"
  msg_text :: "string option"
  isV1 :: bool
  isDone :: bool
  isFetching :: bool
  isError :: bool
  errorText :: "string option"
  apiMetrics :: "ApiMetrics option"
  isSubMessage :: bool

text \<open>
  \<open>isV1\<close> is the answer of the type guard \<open>isV1ClaudeMessage\<close> on the message. The
  flags \<open>isDone\<close>, \<open>isFetching\<close>, \<open>isError\<close> are \<open>False\<close> where the object has no
  such property (the code only tests their truthiness).

  A tool payload (\<open>ChatTool\<close>) is the object that \<open>JSON.parse\<close> yields from the text
  of a tool ask. Only its \<open>approvalState\<close> and \<open>error\<close> properties are inspected;
  the remaining properties are carried along unchanged.
\<close>

record ChatTool =
  approvalState :: "string option"
  error :: "string option"
  otherFields :: "(string \<times> string) list"

datatype AskResponseKind = yesButtonTapped | noButtonTapped | messageResponse

record AskResponse =
  response :: AskResponseKind
  resp_text :: "string option"
  images :: "string list option"

datatype ToolResponse = ResultString string | ResultBlocks "ContentBlock list"

record ToolResult =
  name :: string
  result :: ToolResponse

text \<open>
  Error codes of the provider: the two named entries of \<open>KODU_ERROR_CODES\<close> that the
  executor distinguishes, and any other status.
\<close>

datatype KoduCode = AUTHENTICATION_ERROR | PAYMENT_REQUIRED_CODE | STATUS int

datatype thrown = KoduError KoduCode string | JsError string

datatype TaskErrorType = UNAUTHORIZED | PAYMENT_REQUIRED | API_ERROR | UNKNOWN_ERROR

record TaskError =
  error_type :: TaskErrorType
  message :: string

record FlushTimer =
  timerReplyId :: int
  timerDelay :: int

datatype event =
  AskIssued ClaudeAsk string
  | AskHandleResponse int AskResponseKind "string option" "string list option"
  | ResetToolState
  | ToolAbortTask
  | ProcessToolUse string
  | WaitForToolProcessing
  | GetToolResults
  | CreateApiStreamRequest "ApiHistoryItem list"
  | PostStateToWebview

record executor =
  state :: TaskState
  currentUserContent :: "UserContent option"
  isRequestCancelled :: bool
  abortController :: "bool option"
  consecutiveErrorCount :: nat
  isAborting :: bool
  streamPaused :: bool
  textBuffer :: string
  flushTimeout :: "FlushTimer option"
  lastFlushTime :: int
  currentReplyId :: "int option"
  claudeMessages :: "ClaudeMessage list"
  apiConversationHistory :: "ApiHistoryItem list"
  events :: "event list"

text \<open>
  \<open>abortController\<close>: \<open>None\<close> is \<open>null\<close>, \<open>Some b\<close> a controller whose signal is
  aborted iff \<open>b\<close>. The result of a method that can raise is an \<open>outcome\<close>: the
  executor it leaves behind, and whether it returned or threw. \<open>Pending\<close> is the
  outcome of a method that waits for a request round the environment has not
  supplied, with the executor at that point.
\<close>

datatype outcome = Returned executor | Threw thrown executor | Pending executor

section \<open>Strings\<close>

definition is_space :: "char \<Rightarrow> bool" where
  "is_space c \<longleftrightarrow> of_char c \<in> {9, 10, 11, 12, 13, 32, 160 :: nat}"

definition trim :: "string \<Rightarrow> string" where
  "trim s = rev (dropWhile is_space (rev (dropWhile is_space s)))"

definition BUFFER_FLUSH_INTERVAL :: int where
  "BUFFER_FLUSH_INTERVAL = 10"

definition BUFFER_SIZE_THRESHOLD :: nat where
  "BUFFER_SIZE_THRESHOLD = 50"

section \<open>The conversation store\<close>

text \<open>
  Modelled from the spec: \<open>getMessageById\<close> of the state manager, the store's
  \<open>getTurn(id)\<close> on the message list: the first entry with the given timestamp.
\<close>

fun getMessageById :: "int \<Rightarrow> ClaudeMessage list \<Rightarrow> ClaudeMessage option" where
  "getMessageById i [] = None"
| "getMessageById i (m # ms) = (if ts m = i then Some m else getMessageById i ms)"

text \<open>
  Modelled from the spec: \<open>updateClaudeMessage\<close> of the state manager, the store's
  \<open>updateTurn(id, patch)\<close> on the message list. The entry identified by the
  timestamp is replaced by the given message; an unknown identity changes nothing.
\<close>

fun updateClaudeMessage :: "int \<Rightarrow> ClaudeMessage \<Rightarrow> ClaudeMessage list \<Rightarrow> ClaudeMessage list" where
  "updateClaudeMessage i m' [] = []"
| "updateClaudeMessage i m' (m # ms) =
     (if ts m = i then m' # ms else m # updateClaudeMessage i m' ms)"

text \<open>
  Modelled from the spec: \<open>appendToClaudeMessage\<close> of the state manager, the store's
  \<open>appendText(id, text)\<close>: the text is appended to the identified entry.
\<close>

fun appendToClaudeMessage :: "int \<Rightarrow> string \<Rightarrow> ClaudeMessage list \<Rightarrow> ClaudeMessage list" where
  "appendToClaudeMessage i t [] = []"
| "appendToClaudeMessage i t (m # ms) =
     (if ts m = i
      then m\<lparr>msg_text := Some ((case msg_text m of None \<Rightarrow> [] | Some s \<Rightarrow> s) @ t)\<rparr> # ms
      else m # appendToClaudeMessage i t ms)"

definition postStateToWebview :: "executor \<Rightarrow> executor" where
  "postStateToWebview w = w\<lparr>events := events w @ [PostStateToWebview]\<rparr>"

section \<open>The output buffer\<close>

text \<open>
  \<open>flushTextBuffer(currentReplyId, force)\<close>; \<open>now\<close> is the value of \<open>Date.now()\<close>.
  A reply identity that is \<open>null\<close>, \<open>undefined\<close> or \<open>0\<close> is falsy.
\<close>

definition flushTextBuffer :: "int \<Rightarrow> int option \<Rightarrow> bool \<Rightarrow> executor \<Rightarrow> executor" where
  "flushTextBuffer now replyId force w =
     (case replyId of
        None \<Rightarrow> w
      | Some i \<Rightarrow>
          if trim (textBuffer w) = [] \<or> i = 0 then w
          else
            let timeSinceLastFlush = now - lastFlushTime w;
                w1 = w\<lparr>flushTimeout := None\<rparr>
            in if force \<or> length (textBuffer w1) \<ge> BUFFER_SIZE_THRESHOLD
                    \<or> timeSinceLastFlush \<ge> BUFFER_FLUSH_INTERVAL
               then
                 let contentToFlush = textBuffer w1;
                     w2 = w1\<lparr>textBuffer := []\<rparr>;
                     w3 = w2\<lparr>claudeMessages :=
                            appendToClaudeMessage i contentToFlush (claudeMessages w2)\<rparr>;
                     w4 = postStateToWebview w3
                 in w4\<lparr>lastFlushTime := now\<rparr>
               else if \<not> streamPaused w1
               then w1\<lparr>flushTimeout :=
                      Some \<lparr>timerReplyId = i,
                            timerDelay = BUFFER_FLUSH_INTERVAL - timeSinceLastFlush\<rparr>\<rparr>
               else w1)"

text \<open>The callback armed by \<open>flushTextBuffer\<close>, run when the timer fires at \<open>now\<close>.\<close>

definition flushTimeout_fire :: "int \<Rightarrow> executor \<Rightarrow> executor" where
  "flushTimeout_fire now w =
     (case flushTimeout w of
        None \<Rightarrow> w
      | Some t \<Rightarrow>
          if trim (textBuffer w) \<noteq> [] \<and> \<not> streamPaused w
          then
            let contentToFlush = textBuffer w;
                w1 = w\<lparr>textBuffer := []\<rparr>;
                w2 = w1\<lparr>claudeMessages :=
                       appendToClaudeMessage (timerReplyId t) contentToFlush (claudeMessages w1)\<rparr>;
                w3 = postStateToWebview w2
            in w3\<lparr>lastFlushTime := now\<rparr>
          else w)"

definition pauseStream :: "int \<Rightarrow> executor \<Rightarrow> executor" where
  "pauseStream now w =
     (if \<not> streamPaused w
      then
        let w1 = w\<lparr>streamPaused := True\<rparr>
        in (case currentReplyId w1 of
              None \<Rightarrow> w1
            | Some i \<Rightarrow> flushTextBuffer now (Some i) True w1)
      else w)"

definition resumeStream :: "int \<Rightarrow> executor \<Rightarrow> executor" where
  "resumeStream now w =
     (if streamPaused w then w\<lparr>streamPaused := False, lastFlushTime := now\<rparr> else w)"

section \<open>Store operations on the two histories\<close>

text \<open>
  Modelled from the spec: \<open>say\<close> of \<open>TaskExecutorUtils\<close>, which is not among the
  sources. It adds an entry of type say (the store's \<open>addTurn(entry)\<close>) with the given
  kind and text to the message list, under the timestamp it returns (\<open>sayTs\<close>).
  It is named \<open>sayEntry\<close> here, \<open>say\<close> being a field of the messages.
\<close>

definition sayEntry :: "ClaudeSay \<Rightarrow> string option \<Rightarrow> int \<Rightarrow> bool \<Rightarrow> executor \<Rightarrow> executor" where
  "sayEntry kind txt sayTs sub w =
     w\<lparr>claudeMessages := claudeMessages w @
        [\<lparr>ts = sayTs, msg_type = Say, ask = None, say = Some kind, msg_text = txt,
          isV1 = True, isDone = False, isFetching = False, isError = False,
          errorText = None, apiMetrics = None, isSubMessage = sub\<rparr>]\<rparr>"

text \<open>
  Modelled from the spec: \<open>ask\<close> of the ask register (\<open>AskManager\<close>, not among the
  sources) registers a question for the user; the call is recorded, the answer is an
  argument of the caller.
\<close>

definition ask_event :: "ClaudeAsk \<Rightarrow> string \<Rightarrow> executor \<Rightarrow> executor" where
  "ask_event kind question w = w\<lparr>events := events w @ [AskIssued kind question]\<rparr>"

definition emit :: "event \<Rightarrow> executor \<Rightarrow> executor" where
  "emit e w = w\<lparr>events := events w @ [e]\<rparr>"

text \<open>
  Modelled from the spec: \<open>addToApiConversationHistory\<close>, the store's
  \<open>addTurn(entry)\<close> on the API history.
\<close>

definition addToApiConversationHistory :: "ApiHistoryItem \<Rightarrow> executor \<Rightarrow> executor" where
  "addToApiConversationHistory h w =
     w\<lparr>apiConversationHistory := apiConversationHistory w @ [h]\<rparr>"

text \<open>
  Modelled from the spec: \<open>updateApiHistoryItem\<close>, the store's \<open>updateTurn(id, patch)\<close>
  on the API history. The first entry with the given timestamp takes the role and
  content of the patch, and the timestamp of the patch when the patch has one.
\<close>

fun updateApiHistoryItem :: "int \<Rightarrow> ApiHistoryItem \<Rightarrow> ApiHistoryItem list \<Rightarrow> ApiHistoryItem list" where
  "updateApiHistoryItem i p [] = []"
| "updateApiHistoryItem i p (h # hs) =
     (if hist_ts h = Some i
      then p\<lparr>hist_ts := (case hist_ts p of None \<Rightarrow> hist_ts h | Some t \<Rightarrow> Some t)\<rparr> # hs
      else h # updateApiHistoryItem i p hs)"

fun getApiHistoryItem :: "int \<Rightarrow> ApiHistoryItem list \<Rightarrow> ApiHistoryItem option" where
  "getApiHistoryItem i [] = None"
| "getApiHistoryItem i (h # hs) = (if hist_ts h = Some i then Some h else getApiHistoryItem i hs)"

section \<open>Fixed texts\<close>

definition continuation_prompt :: string where
  "continuation_prompt = ''Let's continue with the task, from where we left off.''"

definition must_use_tool_prompt :: string where
  "must_use_tool_prompt = ''You must use a tool to proceed. Either use attempt_completion if you've completed the task, or ask_followup_question if you need more information.''"

definition interrupted_placeholder :: string where
  "interrupted_placeholder = ''the response was interrupted in the middle of processing''"

definition failed_marker :: string where
  "failed_marker = ''Failed to generate a response, please try again.''"

definition error_marker :: string where
  "error_marker = ''An error occurred in the generation of the response. Please try again.''"

definition tool_interrupted_message :: string where
  "tool_interrupted_message = ''Task was interrupted before this tool call could be completed.''"

definition request_cancelled_text :: string where
  "request_cancelled_text = ''Request cancelled by user''"

definition resume_after_interrupt_question :: string where
  "resume_after_interrupt_question = ''Task was interrupted before the last response could be generated. Would you like to resume the task?''"

definition resume_after_errors_question :: string where
  "resume_after_errors_question = ''Claude has encountered an error 3 times in a row. Would you like to resume the task?''"

section \<open>Entry points\<close>

definition normalizeUserContent :: "UserContent \<Rightarrow> UserContent" where
  "normalizeUserContent c =
     (case c of
        [] \<Rightarrow> [TextBlock continuation_prompt]
      | TextBlock t # _ \<Rightarrow> if trim t = [] then [TextBlock continuation_prompt] else c
      | ImageBlock _ # _ \<Rightarrow> c)"

section \<open>The environment of a request round\<close>

text \<open>
  Chunks of the response stream (\<open>koduSSEResponse\<close>): code 2 carries a text delta,
  code 1 ends the stream with the metrics, code -1 ends it with an error (an optional
  message and an optional status); other codes are ignored by the executor's handlers.
\<close>

datatype koduSSEResponse =
  Delta string
  | SuccessEnd ApiMetrics
  | ErrorEnd "string option" "KoduCode option"
  | OtherChunk int

text \<open>
  One stream event, with what the collaborators answer while it is handled: the text
  \<open>processToolUse\<close> returns, whether \<open>hasActiveTools\<close> holds afterwards, the clock
  while the chunk is handled (\<open>at\<close>) and once tool processing has been awaited
  (\<open>resumedAt\<close>).
\<close>

record stream_event =
  chunk :: koduSSEResponse
  nonXMLText :: string
  hasActiveTools :: bool
  at :: int
  resumedAt :: int

text \<open>
  Everything the environment contributes to one round of \<open>makeClaudeRequest\<close>: the
  clock at its start, the readable request text and the timestamp of the
  request-started entry, the timestamp of the reply entry, the events of the stream
  and the error the network layer raises after them (if any), the answers of the tool
  executor at the end of the stream, the message table of \<open>KoduError\<close>, and the
  user's answer to a retry question with the timestamp of the notice written then.
\<close>

record round_script =
  roundAt :: int
  requestText :: string
  startedReqTs :: int
  replyTs :: int
  streamEvents :: "stream_event list"
  streamThrows :: "thrown option"
  finalNonXMLText :: string
  finalAt :: int
  toolResults :: "ToolResult list"
  koduErrorMessage :: "KoduCode \<Rightarrow> string"
  errorSayTs :: int
  retryResponse :: AskResponse

record response_state =
  exec :: executor
  apiHistoryItem :: ApiHistoryItem
  accumulatedText :: string

section \<open>Processing the response stream\<close>

definition onImmediateEndOfStream ::
  "int \<Rightarrow> (KoduCode \<Rightarrow> string) \<Rightarrow> koduSSEResponse \<Rightarrow> executor \<Rightarrow> executor \<times> thrown option" where
  "onImmediateEndOfStream startedReqId msgOf c w =
     (if isRequestCancelled w \<or> isAborting w then (w, None)
      else case c of
        SuccessEnd m \<Rightarrow>
          (postStateToWebview
             (w\<lparr>claudeMessages :=
                  (case getMessageById startedReqId (claudeMessages w) of
                     None \<Rightarrow> claudeMessages w
                   | Some old \<Rightarrow>
                       updateClaudeMessage startedReqId
                         (old\<lparr>apiMetrics := Some m, isDone := True, isFetching := False\<rparr>)
                         (claudeMessages w))\<rparr>),
           None)
      | ErrorEnd msg status \<Rightarrow>
          (postStateToWebview
             (w\<lparr>claudeMessages :=
                  (case getMessageById startedReqId (claudeMessages w) of
                     None \<Rightarrow> claudeMessages w
                   | Some old \<Rightarrow>
                       updateClaudeMessage startedReqId
                         (old\<lparr>isDone := True, isFetching := False,
                              errorText := Some (case msg of None \<Rightarrow> ''Internal Server Error''
                                                          | Some s \<Rightarrow> s),
                              isError := True\<rparr>)
                         (claudeMessages w))\<rparr>),
           let code = (case status of None \<Rightarrow> STATUS 500 | Some k \<Rightarrow> k)
           in Some (KoduError code (msgOf code)))
      | Delta _ \<Rightarrow> (w, None)
      | OtherChunk _ \<Rightarrow> (w, None))"

text \<open>
  The text of the assistant turn after a delta: the delta replaces the placeholder,
  and is appended to any other text. The turn is only touched when its content is a
  list whose first block is a text block.
\<close>

definition add_text :: "string \<Rightarrow> string \<Rightarrow> string" where
  "add_text old t = (if old = interrupted_placeholder then t else old @ t)"

definition add_delta :: "string \<Rightarrow> ApiHistoryItem \<Rightarrow> ApiHistoryItem option" where
  "add_delta t h =
     (case content h of
        ContentBlocks (TextBlock old # rest) \<Rightarrow>
          Some (h\<lparr>content := ContentBlocks (TextBlock (add_text old t) # rest)\<rparr>)
      | _ \<Rightarrow> None)"

definition onChunk :: "int \<Rightarrow> stream_event \<Rightarrow> response_state \<Rightarrow> response_state" where
  "onChunk startedReqId ev ps =
     (if isRequestCancelled (exec ps) \<or> isAborting (exec ps) then ps
      else case chunk ev of
        Delta t \<Rightarrow>
          let ps1 = (case add_delta t (apiHistoryItem ps) of
                       None \<Rightarrow> ps
                     | Some h \<Rightarrow>
                         ps\<lparr>exec := (exec ps)\<lparr>apiConversationHistory :=
                                updateApiHistoryItem startedReqId h
                                  (apiConversationHistory (exec ps))\<rparr>,
                            apiHistoryItem := h\<rparr>)
          in if \<not> streamPaused (exec ps1)
             then
               let acc = accumulatedText ps1 @ t;
                   w1 = emit (ProcessToolUse acc) (exec ps1);
                   w2 = (if nonXMLText ev \<noteq> []
                         then flushTextBuffer (at ev) (currentReplyId w1) False
                                (w1\<lparr>textBuffer := textBuffer w1 @ nonXMLText ev\<rparr>)
                         else w1);
                   w3 = (if hasActiveTools ev
                         then
                           let a = flushTextBuffer (at ev) (currentReplyId w2) True w2;
                               b = pauseStream (at ev) a;
                               c = emit WaitForToolProcessing b;
                               d = resumeStream (resumedAt ev) c;
                               e = sayEntry Say_text (Some []) (resumedAt ev) True d
                           in e\<lparr>currentReplyId := Some (resumedAt ev)\<rparr>
                         else w2)
               in ps1\<lparr>exec := w3, accumulatedText := []\<rparr>
             else ps1
      | _ \<Rightarrow> ps)"

text \<open>
  Modelled from the spec: the chunk dispatcher (\<open>ChunkProcessor\<close>, not among the
  sources) consumes the events in order and invokes the matching handler per event:
  \<open>onChunk\<close> for a delta, \<open>onImmediateEndOfStream\<close> for a success end or an error
  end. A handler that raises ends the processing.
\<close>

fun processStream ::
  "int \<Rightarrow> (KoduCode \<Rightarrow> string) \<Rightarrow> stream_event list \<Rightarrow> response_state \<Rightarrow> response_state \<times> thrown option" where
  "processStream startedReqId msgOf [] ps = (ps, None)"
| "processStream startedReqId msgOf (ev # evs) ps =
     (case chunk ev of
        Delta _ \<Rightarrow> processStream startedReqId msgOf evs (onChunk startedReqId ev ps)
      | OtherChunk _ \<Rightarrow> processStream startedReqId msgOf evs ps
      | _ \<Rightarrow>
          (case onImmediateEndOfStream startedReqId msgOf (chunk ev) (exec ps) of
             (w, Some e) \<Rightarrow> (ps\<lparr>exec := w\<rparr>, Some e)
           | (w, None) \<Rightarrow> processStream startedReqId msgOf evs (ps\<lparr>exec := w\<rparr>)))"

text \<open>
  Modelled from the spec: a success end or an error end fires, besides the immediate
  callback, the final callback of the dispatcher once the sequence is exhausted.
  \<open>end_of_stream_received\<close> tells whether the events hold such an end.
\<close>

definition is_end_chunk :: "koduSSEResponse \<Rightarrow> bool" where
  "is_end_chunk c =
     (case c of SuccessEnd _ \<Rightarrow> True | ErrorEnd _ _ \<Rightarrow> True
              | Delta _ \<Rightarrow> False | OtherChunk _ \<Rightarrow> False)"

definition end_of_stream_received :: "stream_event list \<Rightarrow> bool" where
  "end_of_stream_received evs = list_ex (\<lambda>ev. is_end_chunk (chunk ev)) evs"

section \<open>Finishing a round\<close>

text \<open>
  The test of \<open>finishProcessingResponse\<close> for empty content: the content has length
  zero, or its first element is a text block whose text is blank (the first element
  of a non-empty string is a character, not a text block).
\<close>

definition needs_failure_marker :: "Content \<Rightarrow> bool" where
  "needs_failure_marker c =
     (case c of
        ContentString s \<Rightarrow> s = []
      | ContentBlocks [] \<Rightarrow> True
      | ContentBlocks (TextBlock t # _) \<Rightarrow> trim t = []
      | ContentBlocks (ImageBlock _ # _) \<Rightarrow> False)"

definition tool_results_content :: "ToolResult list \<Rightarrow> UserContent" where
  "tool_results_content rs =
     concat (map (\<lambda>r. case result r of ResultString s \<Rightarrow> [TextBlock s]
                                       | ResultBlocks bs \<Rightarrow> bs) rs)"

definition tool_response_content :: "ToolResponse \<Rightarrow> Content" where
  "tool_response_content r =
     (case r of ResultString s \<Rightarrow> ContentString s | ResultBlocks bs \<Rightarrow> ContentBlocks bs)"

text \<open>
  \<open>finishProcessingResponse\<close>, up to the call of \<open>makeClaudeRequest\<close> that ends two of
  its branches: the second component of the result tells whether that call is made.
\<close>

definition finishProcessingResponse ::
  "ToolResult list \<Rightarrow> ApiHistoryItem \<Rightarrow> executor \<Rightarrow> executor \<times> bool" where
  "finishProcessingResponse results assistantResponses w =
     (if isRequestCancelled w \<or> isAborting w then (w, False)
      else
        let w1 = (if needs_failure_marker (content assistantResponses)
                  then (case hist_ts assistantResponses of
                          None \<Rightarrow> w
                        | Some t \<Rightarrow>
                            if t = 0 then w
                            else w\<lparr>apiConversationHistory :=
                                   updateApiHistoryItem t
                                     \<lparr>role = Assistant, hist_ts = None,
                                      content = ContentBlocks [TextBlock failed_marker]\<rparr>
                                     (apiConversationHistory w)\<rparr>)
                  else w);
            w2 = emit GetToolResults w1
        in if results \<noteq> []
           then (case find (\<lambda>r. name r = ''attempt_completion'') results of
                   Some completionAttempted \<Rightarrow>
                     let w3 = addToApiConversationHistory
                                \<lparr>role = User, hist_ts = None,
                                 content = tool_response_content (result completionAttempted)\<rparr> w2;
                         w4 = addToApiConversationHistory
                                \<lparr>role = Assistant, hist_ts = None,
                                 content = ContentBlocks
                                   [TextBlock ''Task completed successfully.'']\<rparr> w3
                     in (w4\<lparr>state := COMPLETED\<rparr>, False)
                 | None \<Rightarrow>
                     (w2\<lparr>state := WAITING_FOR_API,
                         currentUserContent := Some (tool_results_content results)\<rparr>, True))
           else (w2\<lparr>state := WAITING_FOR_API,
                    currentUserContent := Some [TextBlock must_use_tool_prompt]\<rparr>, True))"

text \<open>
  \<open>onFinalEndOfStream\<close>: first the steps that precede \<open>finishProcessingResponse\<close>
  (remaining text is handed to the tool executor, tools are awaited, the buffer is
  flushed by force into the first reply entry of the round), then the handler itself.
\<close>

definition onFinalEndOfStream_flush :: "round_script \<Rightarrow> int \<Rightarrow> response_state \<Rightarrow> executor" where
  "onFinalEndOfStream_flush r replyId ps =
     (let w1 = (if accumulatedText ps \<noteq> []
                then
                  let a = emit (ProcessToolUse (accumulatedText ps)) (exec ps)
                  in if finalNonXMLText r \<noteq> []
                     then a\<lparr>textBuffer := textBuffer a @ finalNonXMLText r\<rparr> else a
                else exec ps);
          w2 = emit WaitForToolProcessing w1;
          w3 = w2\<lparr>flushTimeout := None\<rparr>;
          w4 = flushTextBuffer (finalAt r) (Some replyId) True w3
      in w4\<lparr>currentReplyId := None\<rparr>)"

definition onFinalEndOfStream ::
  "round_script \<Rightarrow> int \<Rightarrow> response_state \<Rightarrow> executor \<times> bool" where
  "onFinalEndOfStream r replyId ps =
     (if isRequestCancelled (exec ps) \<or> isAborting (exec ps) then (exec ps, False)
      else finishProcessingResponse (toolResults r) (apiHistoryItem ps)
             (onFinalEndOfStream_flush r replyId ps))"

text \<open>
  \<open>processApiResponse\<close>: the executor it leaves, the error it raised (if any), and
  whether the round ended by calling \<open>makeClaudeRequest\<close> again.
\<close>

definition processApiResponse ::
  "round_script \<Rightarrow> int \<Rightarrow> executor \<Rightarrow> executor \<times> thrown option \<times> bool" where
  "processApiResponse r startedReqId w =
     (if state w \<noteq> PROCESSING_RESPONSE \<or> isRequestCancelled w \<or> isAborting w
      then (w, None, False)
      else
        let w1 = sayEntry Say_text (Some []) (replyTs r) True w;
            w2 = w1\<lparr>currentReplyId := Some (replyTs r)\<rparr>;
            h = \<lparr>role = Assistant, hist_ts = Some startedReqId,
                 content = ContentBlocks [TextBlock interrupted_placeholder]\<rparr>;
            w3 = addToApiConversationHistory h w2
        in case processStream startedReqId (koduErrorMessage r) (streamEvents r)
                  \<lparr>exec = w3, apiHistoryItem = h, accumulatedText = []\<rparr> of
             (ps, Some e) \<Rightarrow> (exec ps, Some e, False)
           | (ps, None) \<Rightarrow>
               (case streamThrows r of
                  Some e \<Rightarrow> (exec ps, Some e, False)
                | None \<Rightarrow>
                    if end_of_stream_received (streamEvents r)
                    then (case onFinalEndOfStream r (replyTs r) ps of
                            (w4, again) \<Rightarrow> (w4, None, again))
                    else (exec ps, None, False)))"

section \<open>Errors of a round\<close>

definition rewrite_blank_assistant :: "ApiHistoryItem \<Rightarrow> ApiHistoryItem" where
  "rewrite_blank_assistant h =
     (let c1 = (case content h of
                  ContentString s \<Rightarrow> ContentBlocks [TextBlock s]
                | ContentBlocks bs \<Rightarrow> ContentBlocks bs);
          c2 = (case c1 of
                  ContentBlocks (TextBlock t # rest) \<Rightarrow>
                    ContentBlocks
                      (TextBlock (if trim t \<noteq> [] then trim t else error_marker) # rest)
                | _ \<Rightarrow> c1)
      in h\<lparr>content := c2\<rparr>)"

text \<open>
  \<open>handleApiError\<close>, up to the call of \<open>makeClaudeRequest\<close> that ends its retry branch
  (second component of the result). \<open>answer\<close> is the user's answer to the retry
  question, \<open>sayTs\<close> the timestamp of the notice written.
\<close>

definition handleApiError ::
  "AskResponse \<Rightarrow> int \<Rightarrow> TaskError \<Rightarrow> executor \<Rightarrow> executor \<times> bool" where
  "handleApiError answer sayTs err w =
     (let w1 = emit ResetToolState w;
          hist = apiConversationHistory w1;
          w2 = (if hist \<noteq> [] \<and> role (last hist) = Assistant
                then (case hist_ts (last hist) of
                        None \<Rightarrow> w1
                      | Some t \<Rightarrow>
                          if t = 0 then w1
                          else
                            let h = rewrite_blank_assistant (last hist)
                            in w1\<lparr>apiConversationHistory :=
                                   updateApiHistoryItem t h (butlast hist @ [h])\<rparr>)
                else w1);
          w3 = w2\<lparr>consecutiveErrorCount := consecutiveErrorCount w2 + 1\<rparr>
      in if error_type err = PAYMENT_REQUIRED \<or> error_type err = UNAUTHORIZED
         then
           (sayEntry (if error_type err = PAYMENT_REQUIRED then Say_payment_required
                 else Say_unauthorized)
              (Some (message err)) sayTs False (w3\<lparr>state := IDLE\<rparr>), False)
         else
           let w4 = ask_event Ask_api_req_failed (message err) w3
           in if response answer = yesButtonTapped \<or> response answer = messageResponse
              then ((sayEntry Say_api_req_retried None sayTs False w4)\<lparr>state := WAITING_FOR_API\<rparr>,
                    True)
              else (w4\<lparr>state := COMPLETED\<rparr>, False))"

definition classify_error :: "thrown \<Rightarrow> TaskError" where
  "classify_error e =
     (case e of
        KoduError AUTHENTICATION_ERROR m \<Rightarrow> \<lparr>error_type = UNAUTHORIZED, message = m\<rparr>
      | KoduError PAYMENT_REQUIRED_CODE m \<Rightarrow> \<lparr>error_type = PAYMENT_REQUIRED, message = m\<rparr>
      | KoduError (STATUS _) m \<Rightarrow> \<lparr>error_type = API_ERROR, message = m\<rparr>
      | JsError m \<Rightarrow> \<lparr>error_type = UNKNOWN_ERROR, message = m\<rparr>)"

section \<open>The request round\<close>

definition makeClaudeRequest_guard :: "executor \<Rightarrow> bool" where
  "makeClaudeRequest_guard w \<longleftrightarrow>
     state w = WAITING_FOR_API \<and> currentUserContent w \<noteq> None
     \<and> \<not> isRequestCancelled w \<and> \<not> isAborting w"

text \<open>
  The part of \<open>makeClaudeRequest\<close> between its guard and the test that follows the
  opening of the stream: per-round state is reset, the resume question is asked when
  the error counter has reached three, the user turn and the request-started entry
  are written, the stream is opened.
\<close>

definition makeClaudeRequest_begin :: "round_script \<Rightarrow> executor \<Rightarrow> executor" where
  "makeClaudeRequest_begin r w =
     (let w1 = emit ResetToolState w;
          w2 = w1\<lparr>isRequestCancelled := False, abortController := Some False,
                 streamPaused := False, textBuffer := [], lastFlushTime := roundAt r,
                 currentReplyId := None\<rparr>;
          w3 = (if consecutiveErrorCount w2 \<ge> 3
                then ask_event Ask_resume_task resume_after_errors_question w2 else w2);
          w4 = addToApiConversationHistory
                 \<lparr>role = User, hist_ts = None,
                  content = ContentBlocks (case currentUserContent w3 of
                                             None \<Rightarrow> [] | Some c \<Rightarrow> c)\<rparr> w3;
          w5 = sayEntry Say_api_req_started (Some (requestText r)) (startedReqTs r) False w4
      in emit (CreateApiStreamRequest (apiConversationHistory w5)) w5)"

text \<open>
  The error a round raises inside the \<open>try\<close> block of \<open>makeClaudeRequest\<close>, if any.
\<close>

definition round_error :: "round_script \<Rightarrow> executor \<Rightarrow> thrown option" where
  "round_error r w =
     (let w1 = makeClaudeRequest_begin r w
      in if isRequestCancelled w1 \<or> isAborting w1 then None
         else fst (snd (processApiResponse r (startedReqTs r)
                          (w1\<lparr>state := PROCESSING_RESPONSE\<rparr>))))"

text \<open>
  One pass through the body of \<open>makeClaudeRequest\<close> behind its guard; the second
  component tells whether the pass ends in a further call of \<open>makeClaudeRequest\<close>.
\<close>

definition makeClaudeRequest_round :: "round_script \<Rightarrow> executor \<Rightarrow> executor \<times> bool" where
  "makeClaudeRequest_round r w =
     (let w1 = makeClaudeRequest_begin r w
      in if isRequestCancelled w1 \<or> isAborting w1
         then (w1\<lparr>abortController := map_option (\<lambda>_. True) (abortController w1)\<rparr>, False)
         else
           (case processApiResponse r (startedReqTs r) (w1\<lparr>state := PROCESSING_RESPONSE\<rparr>) of
              (w2, None, again) \<Rightarrow> (w2, again)
            | (w2, Some e, _) \<Rightarrow>
                if \<not> isRequestCancelled w2 \<and> \<not> isAborting w2
                then handleApiError (retryResponse r) (errorSayTs r) (classify_error e) w2
                else (w2, False)))"

text \<open>
  \<open>makeClaudeRequest\<close> over the scripts of the rounds to come. \<open>Pending\<close>: the guard
  let a round begin and the environment has no further round to offer.
\<close>

fun makeClaudeRequest :: "round_script list \<Rightarrow> executor \<Rightarrow> outcome" where
  "makeClaudeRequest [] w = (if makeClaudeRequest_guard w then Pending w else Returned w)"
| "makeClaudeRequest (r # rs) w =
     (if \<not> makeClaudeRequest_guard w then Returned w
      else
        let p = makeClaudeRequest_round r w
        in if snd p then makeClaudeRequest rs (fst p) else Returned (fst p))"

section \<open>Starting, resuming, new messages\<close>

definition startTask :: "round_script list \<Rightarrow> UserContent \<Rightarrow> executor \<Rightarrow> outcome" where
  "startTask rs userContent w =
     (if isAborting w then Threw (JsError ''Cannot start task while aborting'') w
      else makeClaudeRequest rs
             (w\<lparr>state := WAITING_FOR_API,
                currentUserContent := Some (normalizeUserContent userContent),
                isRequestCancelled := False,
                abortController := Some False,
                consecutiveErrorCount := 0\<rparr>))"

definition resumeTask :: "round_script list \<Rightarrow> UserContent \<Rightarrow> executor \<Rightarrow> outcome" where
  "resumeTask rs userContent w =
     (if isAborting w then Threw (JsError ''Cannot resume task while aborting'') w
      else if state w = WAITING_FOR_USER
      then makeClaudeRequest rs
             (w\<lparr>state := WAITING_FOR_API,
                currentUserContent := Some (normalizeUserContent userContent),
                isRequestCancelled := False,
                consecutiveErrorCount := 0,
                abortController := Some False\<rparr>)
      else Returned w)"

text \<open>
  \<open>newMessage\<close>; \<open>sayTs\<close> is the timestamp of the feedback entry. Reading
  \<open>message[0].type\<close> of an empty list raises a \<open>TypeError\<close>.
\<close>

definition newMessage :: "round_script list \<Rightarrow> int \<Rightarrow> UserContent \<Rightarrow> executor \<Rightarrow> outcome" where
  "newMessage rs sayTs msg w =
     (if isAborting w then Threw (JsError ''Cannot start new message while aborting'') w
      else
        let w1 = w\<lparr>state := WAITING_FOR_API, isRequestCancelled := False,
                  abortController := Some False, currentUserContent := Some msg\<rparr>
        in case msg of
             [] \<Rightarrow> Threw (JsError ''TypeError'') w1
           | TextBlock t # _ \<Rightarrow>
               makeClaudeRequest rs (sayEntry Say_user_feedback (Some t) sayTs False w1)
           | ImageBlock _ # _ \<Rightarrow>
               makeClaudeRequest rs (sayEntry Say_user_feedback (Some ''New message'') sayTs False w1))"

section \<open>Answers to asks\<close>

definition handleAskResponse ::
  "AskResponseKind \<Rightarrow> string option \<Rightarrow> string list option \<Rightarrow> executor \<Rightarrow> executor" where
  "handleAskResponse resp txt imgs w =
     (case find (\<lambda>m. msg_type m = Ask) (rev (claudeMessages w)) of
        None \<Rightarrow> w
      | Some lastAskMessage \<Rightarrow> emit (AskHandleResponse (ts lastAskMessage) resp txt imgs) w)"

section \<open>Abort\<close>

text \<open>
  Modelled from the spec: \<open>updateAsk\<close> of \<open>TaskExecutorUtils\<close>, which is not among
  the sources. The ask entry with the given timestamp is rewritten (the store's
  \<open>updateTurn(id, patch)\<close>) to carry the serialised tool payload; \<open>stringify\<close> is
  \<open>JSON.stringify\<close>.
\<close>

definition updateAsk ::
  "(ChatTool \<Rightarrow> string) \<Rightarrow> ClaudeAsk \<Rightarrow> ChatTool \<Rightarrow> int \<Rightarrow> executor \<Rightarrow> executor" where
  "updateAsk stringify kind tool askTs w =
     (case getMessageById askTs (claudeMessages w) of
        None \<Rightarrow> w
      | Some old \<Rightarrow>
          w\<lparr>claudeMessages :=
              updateClaudeMessage askTs
                (old\<lparr>msg_type := Ask, ask := Some kind, msg_text := Some (stringify tool)\<rparr>)
                (claudeMessages w)\<rparr>)"

text \<open>
  The search for the last tool request in \<open>cancelCurrentRequest\<close>, over the reversed
  message list. \<open>parse\<close> is \<open>JSON.parse\<close> followed by the reading of the payload's
  properties: \<open>None\<close> where that raises. An absent text is parsed as \<open>{}\<close>.
\<close>

definition text_or_empty_object :: "ClaudeMessage \<Rightarrow> string" where
  "text_or_empty_object m = (case msg_text m of None \<Rightarrow> ''{}'' | Some s \<Rightarrow> s)"

fun find_lastToolRequest ::
  "(string \<Rightarrow> ChatTool option) \<Rightarrow> ClaudeMessage list \<Rightarrow> thrown + ClaudeMessage option" where
  "find_lastToolRequest parse [] = Inr None"
| "find_lastToolRequest parse (m # ms) =
     (if \<not> isV1 m \<or> ask m \<noteq> Some Ask_tool then find_lastToolRequest parse ms
      else case parse (text_or_empty_object m) of
             None \<Rightarrow> Inl (JsError ''SyntaxError'')
           | Some parsedTool \<Rightarrow>
               if approvalState parsedTool \<noteq> Some ''error'' then Inr (Some m)
               else find_lastToolRequest parse ms)"

definition cancelCurrentRequest ::
  "(string \<Rightarrow> ChatTool option) \<Rightarrow> (ChatTool \<Rightarrow> string) \<Rightarrow> executor \<Rightarrow> outcome" where
  "cancelCurrentRequest parse stringify w =
     (if isRequestCancelled w then Returned w
      else if length (claudeMessages w) = 2 then Returned w
      else
        let w1 = w\<lparr>isRequestCancelled := True,
                  abortController := map_option (\<lambda>_. True) (abortController w),
                  state := ABORTED\<rparr>;
            lastApiRequest =
              find (\<lambda>m. msg_type m = Say \<and> say m = Some Say_api_req_started)
                (rev (claudeMessages w1))
        in case find_lastToolRequest parse (rev (claudeMessages w1)) of
             Inl e \<Rightarrow> Threw e w1
           | Inr lastToolRequest \<Rightarrow>
               (case (case lastToolRequest of
                        None \<Rightarrow> Inr w1
                      | Some m \<Rightarrow>
                          (case parse (text_or_empty_object m) of
                             None \<Rightarrow> Inl (JsError ''SyntaxError'')
                           | Some parsedTool \<Rightarrow>
                               if approvalState parsedTool \<noteq> Some ''approved''
                               then Inr (updateAsk stringify Ask_tool
                                           (parsedTool\<lparr>approvalState := Some ''error'',
                                                       error := Some tool_interrupted_message\<rparr>)
                                           (ts m) w1)
                               else Inr w1)) of
                  Inl e \<Rightarrow> Threw e w1
                | Inr w2 \<Rightarrow>
                    let w3 = (case lastApiRequest of
                                None \<Rightarrow> w2
                              | Some req \<Rightarrow>
                                  if isV1 req \<and> \<not> isDone req
                                  then w2\<lparr>claudeMessages :=
                                         updateClaudeMessage (ts req)
                                           (req\<lparr>isDone := True, isFetching := False,
                                                errorText := Some request_cancelled_text,
                                                isError := True\<rparr>)
                                           (claudeMessages w2)\<rparr>
                                  else w2);
                        w4 = ask_event Ask_resume_task resume_after_interrupt_question w3
                    in Returned (postStateToWebview w4)))"

text \<open>
  The continuation attached to the resume question of \<open>cancelCurrentRequest\<close>, run
  when the user answers it.
\<close>

definition cancelCurrentRequest_then ::
  "round_script list \<Rightarrow> AskResponse \<Rightarrow> executor \<Rightarrow> outcome" where
  "cancelCurrentRequest_then rs res w =
     (if response res = yesButtonTapped
      then makeClaudeRequest rs
             (w\<lparr>state := WAITING_FOR_API,
                currentUserContent := Some [TextBlock continuation_prompt]\<rparr>)
      else if (response res = noButtonTapped
                 \<and> (case resp_text res of None \<Rightarrow> False | Some t \<Rightarrow> t \<noteq> []))
              \<or> images res \<noteq> None
      then
        let newContent =
              (case resp_text res of
                 None \<Rightarrow> [] | Some t \<Rightarrow> if t \<noteq> [] then [TextBlock t] else [])
              @ (case images res of None \<Rightarrow> [] | Some is \<Rightarrow> map ImageBlock is)
        in makeClaudeRequest rs
             (w\<lparr>currentUserContent := Some newContent, state := WAITING_FOR_API\<rparr>)
      else Returned (w\<lparr>state := COMPLETED\<rparr>))"

definition resetState :: "int \<Rightarrow> executor \<Rightarrow> executor" where
  "resetState now w =
     postStateToWebview
       (w\<lparr>flushTimeout := None,
          isRequestCancelled := False,
          abortController := None,
          consecutiveErrorCount := 0,
          state := WAITING_FOR_USER,
          streamPaused := False,
          textBuffer := [],
          lastFlushTime := now,
          currentReplyId := None\<rparr>)"

definition abortTask ::
  "(string \<Rightarrow> ChatTool option) \<Rightarrow> (ChatTool \<Rightarrow> string) \<Rightarrow> int \<Rightarrow> executor \<Rightarrow> outcome" where
  "abortTask parse stringify now w =
     (if isAborting w then Returned w
      else
        case cancelCurrentRequest parse stringify (w\<lparr>isAborting := True\<rparr>) of
          Returned w1 \<Rightarrow>
            Returned ((resetState now (emit ToolAbortTask w1))\<lparr>isAborting := False\<rparr>)
        | Threw e w1 \<Rightarrow> Threw e (w1\<lparr>isAborting := False\<rparr>)
        | Pending w1 \<Rightarrow> Pending w1)"

section \<open>Concrete executors and entries\<close>

text \<open>The executor as its constructor leaves it, with empty histories.\<close>

definition initial_executor :: executor where
  "initial_executor =
     \<lparr>state = IDLE, currentUserContent = None, isRequestCancelled = False,
      abortController = None, consecutiveErrorCount = 0, isAborting = False,
      streamPaused = False, textBuffer = [], flushTimeout = None, lastFlushTime = 0,
      currentReplyId = None, claudeMessages = [], apiConversationHistory = [],
      events = []\<rparr>"

definition say_entry :: "int \<Rightarrow> ClaudeSay \<Rightarrow> string \<Rightarrow> ClaudeMessage" where
  "say_entry i kind t =
     \<lparr>ts = i, msg_type = Say, ask = None, say = Some kind, msg_text = Some t,
      isV1 = True, isDone = False, isFetching = False, isError = False,
      errorText = None, apiMetrics = None, isSubMessage = False\<rparr>"

definition ask_entry :: "int \<Rightarrow> ClaudeAsk \<Rightarrow> string \<Rightarrow> ClaudeMessage" where
  "ask_entry i kind t =
     \<lparr>ts = i, msg_type = Ask, ask = Some kind, say = None, msg_text = Some t,
      isV1 = True, isDone = False, isFetching = False, isError = False,
      errorText = None, apiMetrics = None, isSubMessage = False\<rparr>"

text \<open>
  Predicates on the API history used below: the assistant turn of the running round
  is the last entry of the history and equals the item the round holds
  (\<open>assistant_turn_tracked\<close>); the entry with a given timestamp is an assistant turn
  whose first block is a text that is not blank (\<open>nonblank_assistant_entry\<close>).
\<close>

definition assistant_turn_tracked :: "ApiHistoryItem list \<Rightarrow> int \<Rightarrow> response_state \<Rightarrow> bool" where
  "assistant_turn_tracked H0 i ps \<longleftrightarrow>
     apiConversationHistory (exec ps) = H0 @ [apiHistoryItem ps]
     \<and> hist_ts (apiHistoryItem ps) = Some i
     \<and> role (apiHistoryItem ps) = Assistant
     \<and> (\<exists>t. content (apiHistoryItem ps) = ContentBlocks [TextBlock t])
     \<and> (\<forall>h \<in> set H0. hist_ts h \<noteq> Some i)"

definition nonblank_assistant_entry :: "int \<Rightarrow> ApiHistoryItem list \<Rightarrow> bool" where
  "nonblank_assistant_entry i hist =
     (case getApiHistoryItem i hist of
        None \<Rightarrow> False
      | Some h \<Rightarrow>
          role h = Assistant
          \<and> (case content h of
                ContentBlocks (TextBlock t # _) \<Rightarrow> trim t \<noteq> []
              | _ \<Rightarrow> False))"

text \<open>
  The response state with which \<open>processApiResponse\<close> enters the stream in a round
  begun from \<open>w\<close>, and the result of dispatching the round's stream events from there.
\<close>

definition response_start :: "round_script \<Rightarrow> executor \<Rightarrow> response_state" where
  "response_start r w =
     (let wp = (makeClaudeRequest_begin r w)\<lparr>state := PROCESSING_RESPONSE\<rparr>;
          w1 = sayEntry Say_text (Some []) (replyTs r) True wp;
          w2 = w1\<lparr>currentReplyId := Some (replyTs r)\<rparr>;
          h = \<lparr>role = Assistant, hist_ts = Some (startedReqTs r),
               content = ContentBlocks [TextBlock interrupted_placeholder]\<rparr>
      in \<lparr>exec = addToApiConversationHistory h w2, apiHistoryItem = h,
          accumulatedText = []\<rparr>)"

definition response_end :: "round_script \<Rightarrow> executor \<Rightarrow> response_state \<times> thrown option" where
  "response_end r w =
     processStream (startedReqTs r) (koduErrorMessage r) (streamEvents r) (response_start r w)"


text \<open>
  A round concludes when it raises an error (the error handler takes over) or its
  stream is exhausted after an end was received (\<open>finishProcessingResponse\<close> runs).
\<close>

definition round_concludes :: "round_script \<Rightarrow> executor \<Rightarrow> bool" where
  "round_concludes r w =
     (case round_error r w of
        Some e \<Rightarrow> True
      | None \<Rightarrow> end_of_stream_received (streamEvents r))"

text \<open>
  The deltas of a stream that reach \<open>onChunk\<close> (those before an error end, which
  raises), and the text they accumulate in the assistant turn of the round.
\<close>

fun delta_texts :: "stream_event list \<Rightarrow> string list" where
  "delta_texts [] = []"
| "delta_texts (ev # evs) =
     (case chunk ev of
        Delta t \<Rightarrow> t # delta_texts evs
      | ErrorEnd _ _ \<Rightarrow> []
      | SuccessEnd _ \<Rightarrow> delta_texts evs
      | OtherChunk _ \<Rightarrow> delta_texts evs)"

definition accumulated_reply :: "stream_event list \<Rightarrow> string" where
  "accumulated_reply evs = foldl add_text interrupted_placeholder (delta_texts evs)"

text \<open>
  No run of leading deltas, short of all of them, spells exactly the placeholder
  text (a delta arriving after such a run would replace the text instead of being
  appended to it).
\<close>

definition placeholder_free :: "string list \<Rightarrow> bool" where
  "placeholder_free ds =
     list_all (\<lambda>n. concat (take n ds) \<noteq> interrupted_placeholder) [1..<length ds]"

text \<open>
  Concrete inputs: an executor waiting to send the user's first text; stream events
  that involve no tool; rounds built from a list of events, stamped from a base time;
  a round whose stream ends with an error chunk; a tool payload awaiting approval with
  a reader and a writer of payloads that agree with \<open>JSON.parse\<close> and
  \<open>JSON.stringify\<close> on the texts used here.
\<close>

definition waiting_executor :: executor where
  "waiting_executor =
     initial_executor\<lparr>state := WAITING_FOR_API,
       currentUserContent := Some [TextBlock ''list files'']\<rparr>"

definition plain_event :: "koduSSEResponse \<Rightarrow> stream_event" where
  "plain_event c = \<lparr>chunk = c, nonXMLText = [], hasActiveTools = False, at = 0, resumedAt = 0\<rparr>"

definition text_event :: "string \<Rightarrow> int \<Rightarrow> stream_event" where
  "text_event t time =
     \<lparr>chunk = Delta t, nonXMLText = t, hasActiveTools = False, at = time, resumedAt = time\<rparr>"

definition round_of :: "int \<Rightarrow> stream_event list \<Rightarrow> round_script" where
  "round_of t evs =
     \<lparr>roundAt = t, requestText = ''{}'', startedReqTs = t + 1, replyTs = t + 2,
      streamEvents = evs, streamThrows = None, finalNonXMLText = [], finalAt = t + 50,
      toolResults = [], koduErrorMessage = (\<lambda>_. ''Unknown error''), errorSayTs = t + 60,
      retryResponse = \<lparr>response = yesButtonTapped, resp_text = None, images = None\<rparr>\<rparr>"

definition example_metrics :: ApiMetrics where
  "example_metrics =
     \<lparr>cost = 1, inputTokens = 10, outputTokens = 5, inputCacheRead = 0, inputCacheWrite = 0\<rparr>"

definition error_round :: "int \<Rightarrow> round_script" where
  "error_round t = round_of t [plain_event (ErrorEnd None None)]"

definition pending_tool_text :: string where
  "pending_tool_text = ''{\"tool\":\"search_files\",\"approvalState\":\"pending\"}''"

definition interrupted_tool_text :: string where
  "interrupted_tool_text = ''{\"tool\":\"search_files\",\"approvalState\":\"error\",\"error\":\"Task was interrupted before this tool call could be completed.\"}''"

definition pending_tool :: ChatTool where
  "pending_tool =
     \<lparr>approvalState = Some ''pending'', error = None,
      otherFields = [(''tool'', ''search_files'')]\<rparr>"

definition example_parse :: "string \<Rightarrow> ChatTool option" where
  "example_parse s =
     (if s = pending_tool_text then Some pending_tool
      else if s = ''{}'' then Some \<lparr>approvalState = None, error = None, otherFields = []\<rparr>
      else None)"

fun json_members :: "(string \<times> string) list \<Rightarrow> string" where
  "json_members [] = []"
| "json_members [(k, v)] = ''\"'' @ k @ ''\":\"'' @ v @ ''\"''"
| "json_members ((k, v) # kvs) = ''\"'' @ k @ ''\":\"'' @ v @ ''\",'' @ json_members kvs"

definition example_stringify :: "ChatTool \<Rightarrow> string" where
  "example_stringify t =
     ''{'' @ json_members
              (otherFields t
               @ (case approvalState t of None \<Rightarrow> [] | Some a \<Rightarrow> [(''approvalState'', a)])
               @ (case error t of None \<Rightarrow> [] | Some e \<Rightarrow> [(''error'', e)]))
     @ ''}''"

definition three_message_executor :: executor where
  "three_message_executor =
     initial_executor\<lparr>state := PROCESSING_RESPONSE,
       claudeMessages :=
         [say_entry 1 Say_text ''list files'',
          say_entry 2 Say_api_req_started ''{}'',
          ask_entry 3 Ask_tool pending_tool_text]\<rparr>"

definition two_message_executor :: executor where
  "two_message_executor =
     initial_executor\<lparr>state := PROCESSING_RESPONSE,
       claudeMessages :=
         [say_entry 2 Say_api_req_started ''{}'',
          ask_entry 3 Ask_tool pending_tool_text]\<rparr>"

section \<open>Auxiliary facts\<close>

lemma all_dropWhile: "(\<forall>x \<in> set (dropWhile P s). P x) \<longleftrightarrow> (\<forall>x \<in> set s. P x)"
  by (induction s) auto

lemma trim_empty_iff: "trim s = [] \<longleftrightarrow> (\<forall>c \<in> set s. is_space c)"
  by (simp add: trim_def dropWhile_eq_Nil_conv all_dropWhile)

lemma getMessageById_append_same:
  "getMessageById i ms = Some m \<Longrightarrow>
   getMessageById i (appendToClaudeMessage i t ms) =
     Some (m\<lparr>msg_text := Some ((case msg_text m of None \<Rightarrow> [] | Some s \<Rightarrow> s) @ t)\<rparr>)"
  by (induction ms) (auto split: if_splits)

lemma getMessageById_append_other:
  "j \<noteq> i \<Longrightarrow> getMessageById j (appendToClaudeMessage i t ms) = getMessageById j ms"
  by (induction ms) auto

lemma find_app:
  "find P (xs @ ys) = (case find P xs of None \<Rightarrow> find P ys | Some x \<Rightarrow> Some x)"
  by (induction xs) auto

lemma find_rev_last:
  assumes "P m" and "\<forall>x \<in> set post. \<not> P x"
  shows "find P (rev (pre @ m # post)) = Some m"
proof -
  have "find P (rev post) = None" using assms(2) by (simp add: find_None_iff)
  then show ?thesis using assms(1) by (simp add: find_app)
qed

section \<open>What stream processing leaves untouched\<close>

lemma flushTextBuffer_frame [simp]:
  "state (flushTextBuffer now i f w) = state w"
  "isRequestCancelled (flushTextBuffer now i f w) = isRequestCancelled w"
  "isAborting (flushTextBuffer now i f w) = isAborting w"
  "consecutiveErrorCount (flushTextBuffer now i f w) = consecutiveErrorCount w"
  "currentUserContent (flushTextBuffer now i f w) = currentUserContent w"
  "apiConversationHistory (flushTextBuffer now i f w) = apiConversationHistory w"
  "streamPaused (flushTextBuffer now i f w) = streamPaused w"
  "currentReplyId (flushTextBuffer now i f w) = currentReplyId w"
  by (simp_all add: flushTextBuffer_def Let_def postStateToWebview_def split: option.splits)

lemma pauseStream_frame [simp]:
  "state (pauseStream now w) = state w"
  "isRequestCancelled (pauseStream now w) = isRequestCancelled w"
  "isAborting (pauseStream now w) = isAborting w"
  "consecutiveErrorCount (pauseStream now w) = consecutiveErrorCount w"
  "currentUserContent (pauseStream now w) = currentUserContent w"
  "apiConversationHistory (pauseStream now w) = apiConversationHistory w"
  by (simp_all add: pauseStream_def Let_def split: option.splits)

lemma resumeStream_frame [simp]:
  "state (resumeStream now w) = state w"
  "isRequestCancelled (resumeStream now w) = isRequestCancelled w"
  "isAborting (resumeStream now w) = isAborting w"
  "consecutiveErrorCount (resumeStream now w) = consecutiveErrorCount w"
  "currentUserContent (resumeStream now w) = currentUserContent w"
  "apiConversationHistory (resumeStream now w) = apiConversationHistory w"
  by (simp_all add: resumeStream_def)

lemma emit_frame [simp]:
  "state (emit e w) = state w"
  "isRequestCancelled (emit e w) = isRequestCancelled w"
  "isAborting (emit e w) = isAborting w"
  "consecutiveErrorCount (emit e w) = consecutiveErrorCount w"
  "currentUserContent (emit e w) = currentUserContent w"
  "apiConversationHistory (emit e w) = apiConversationHistory w"
  "claudeMessages (emit e w) = claudeMessages w"
  "events (emit e w) = events w @ [e]"
  by (simp_all add: emit_def)

lemma sayEntry_frame [simp]:
  "state (sayEntry k t i s w) = state w"
  "isRequestCancelled (sayEntry k t i s w) = isRequestCancelled w"
  "isAborting (sayEntry k t i s w) = isAborting w"
  "consecutiveErrorCount (sayEntry k t i s w) = consecutiveErrorCount w"
  "currentUserContent (sayEntry k t i s w) = currentUserContent w"
  "apiConversationHistory (sayEntry k t i s w) = apiConversationHistory w"
  "events (sayEntry k t i s w) = events w"
  by (simp_all add: sayEntry_def)

lemma onChunk_frame [simp]:
  "state (exec (onChunk i ev ps)) = state (exec ps)"
  "isRequestCancelled (exec (onChunk i ev ps)) = isRequestCancelled (exec ps)"
  "isAborting (exec (onChunk i ev ps)) = isAborting (exec ps)"
  "consecutiveErrorCount (exec (onChunk i ev ps)) = consecutiveErrorCount (exec ps)"
  "currentUserContent (exec (onChunk i ev ps)) = currentUserContent (exec ps)"
  by (simp_all add: onChunk_def Let_def split: koduSSEResponse.splits option.splits)

lemma onImmediateEndOfStream_frame [simp]:
  "state (fst (onImmediateEndOfStream i km c w)) = state w"
  "isRequestCancelled (fst (onImmediateEndOfStream i km c w)) = isRequestCancelled w"
  "isAborting (fst (onImmediateEndOfStream i km c w)) = isAborting w"
  "consecutiveErrorCount (fst (onImmediateEndOfStream i km c w)) = consecutiveErrorCount w"
  "currentUserContent (fst (onImmediateEndOfStream i km c w)) = currentUserContent w"
  "apiConversationHistory (fst (onImmediateEndOfStream i km c w)) = apiConversationHistory w"
  by (simp_all add: onImmediateEndOfStream_def postStateToWebview_def Let_def
      split: koduSSEResponse.splits)

lemma processStream_frame:
  "state (exec (fst (processStream i km evs ps))) = state (exec ps)
   \<and> isRequestCancelled (exec (fst (processStream i km evs ps))) = isRequestCancelled (exec ps)
   \<and> isAborting (exec (fst (processStream i km evs ps))) = isAborting (exec ps)
   \<and> consecutiveErrorCount (exec (fst (processStream i km evs ps))) = consecutiveErrorCount (exec ps)
   \<and> currentUserContent (exec (fst (processStream i km evs ps))) = currentUserContent (exec ps)"
proof (induction evs arbitrary: ps)
  case Nil
  then show ?case by simp
next
  case (Cons ev evs)
  show ?case
  proof (cases "chunk ev")
    case (Delta t)
    then show ?thesis using Cons [of "onChunk i ev ps"] by simp
  next
    case (OtherChunk n)
    then show ?thesis using Cons [of ps] by simp
  next
    case (SuccessEnd m)
    obtain w' e where o: "onImmediateEndOfStream i km (chunk ev) (exec ps) = (w', e)"
      by (cases "onImmediateEndOfStream i km (chunk ev) (exec ps)")
    have w': "state w' = state (exec ps) \<and> isRequestCancelled w' = isRequestCancelled (exec ps)
        \<and> isAborting w' = isAborting (exec ps)
        \<and> consecutiveErrorCount w' = consecutiveErrorCount (exec ps)
        \<and> currentUserContent w' = currentUserContent (exec ps)"
      using onImmediateEndOfStream_frame [of i km "chunk ev" "exec ps"] unfolding o by simp
    show ?thesis using SuccessEnd o w' Cons [of "ps\<lparr>exec := w'\<rparr>"]
      by (cases e) simp_all
  next
    case (ErrorEnd a b)
    obtain w' e where o: "onImmediateEndOfStream i km (chunk ev) (exec ps) = (w', e)"
      by (cases "onImmediateEndOfStream i km (chunk ev) (exec ps)")
    have w': "state w' = state (exec ps) \<and> isRequestCancelled w' = isRequestCancelled (exec ps)
        \<and> isAborting w' = isAborting (exec ps)
        \<and> consecutiveErrorCount w' = consecutiveErrorCount (exec ps)
        \<and> currentUserContent w' = currentUserContent (exec ps)"
      using onImmediateEndOfStream_frame [of i km "chunk ev" "exec ps"] unfolding o by simp
    show ?thesis using ErrorEnd o w' Cons [of "ps\<lparr>exec := w'\<rparr>"]
      by (cases e) simp_all
  qed
qed

section \<open>The assistant turn during stream processing\<close>

lemma updateApiHistoryItem_fresh_last:
  "\<forall>h \<in> set H0. hist_ts h \<noteq> Some i \<Longrightarrow> hist_ts h0 = Some i \<Longrightarrow>
   updateApiHistoryItem i p (H0 @ [h0]) =
     H0 @ [p\<lparr>hist_ts := (case hist_ts p of None \<Rightarrow> Some i | Some t \<Rightarrow> Some t)\<rparr>]"
  by (induction H0) (auto split: option.splits)

lemma getApiHistoryItem_fresh:
  "\<forall>h \<in> set H0. hist_ts h \<noteq> Some i \<Longrightarrow>
   getApiHistoryItem i (H0 @ hs) = getApiHistoryItem i hs"
  by (induction H0) auto

lemma onChunk_tracked:
  assumes "assistant_turn_tracked H0 i ps"
  shows "assistant_turn_tracked H0 i (onChunk i ev ps)"
proof -
  obtain t0 where c: "content (apiHistoryItem ps) = ContentBlocks [TextBlock t0]"
    using assms by (auto simp: assistant_turn_tracked_def)
  show ?thesis
    using assms c
    by (auto simp: assistant_turn_tracked_def onChunk_def Let_def add_delta_def
        updateApiHistoryItem_fresh_last
        split: koduSSEResponse.splits)
qed

lemma onImmediateEndOfStream_tracked:
  assumes "assistant_turn_tracked H0 i ps"
  shows "assistant_turn_tracked H0 i (ps\<lparr>exec := fst (onImmediateEndOfStream j km c (exec ps))\<rparr>)"
  using assms by (simp add: assistant_turn_tracked_def)

lemma processStream_tracked:
  "assistant_turn_tracked H0 i ps \<Longrightarrow>
   assistant_turn_tracked H0 i (fst (processStream i km evs ps))"
proof (induction evs arbitrary: ps)
  case Nil
  then show ?case by simp
next
  case (Cons ev evs)
  show ?case
  proof (cases "chunk ev")
    case (Delta t)
    then show ?thesis using Cons.IH [OF onChunk_tracked [OF Cons.prems]] by simp
  next
    case (OtherChunk n)
    then show ?thesis using Cons by simp
  next
    case (SuccessEnd m)
    obtain w' e where o: "onImmediateEndOfStream i km (chunk ev) (exec ps) = (w', e)"
      by (cases "onImmediateEndOfStream i km (chunk ev) (exec ps)")
    have w': "assistant_turn_tracked H0 i (ps\<lparr>exec := w'\<rparr>)"
      using onImmediateEndOfStream_tracked [OF Cons.prems, of i km "chunk ev"] unfolding o by simp
    show ?thesis using SuccessEnd o w' Cons.IH [OF w']
      by (cases e) simp_all
  next
    case (ErrorEnd a b)
    obtain w' e where o: "onImmediateEndOfStream i km (chunk ev) (exec ps) = (w', e)"
      by (cases "onImmediateEndOfStream i km (chunk ev) (exec ps)")
    have w': "assistant_turn_tracked H0 i (ps\<lparr>exec := w'\<rparr>)"
      using onImmediateEndOfStream_tracked [OF Cons.prems, of i km "chunk ev"] unfolding o by simp
    show ?thesis using ErrorEnd o w' Cons.IH [OF w']
      by (cases e) simp_all
  qed
qed

lemma trim_nonblank_marker [simp]:
  "trim failed_marker \<noteq> []" "trim error_marker \<noteq> []" "trim interrupted_placeholder \<noteq> []"
  by (simp_all add: trim_empty_iff failed_marker_def error_marker_def
      interrupted_placeholder_def is_space_def)

lemma all_space_trim: "(\<forall>c \<in> set (trim t). is_space c) \<longleftrightarrow> (\<forall>c \<in> set t. is_space c)"
  by (simp add: trim_def all_dropWhile)

lemma trim_trim_nonblank: "trim t \<noteq> [] \<Longrightarrow> trim (trim t) \<noteq> []"
  using all_space_trim [of t] by (simp only: trim_empty_iff) blast

section \<open>Facts about the parts of a round\<close>

lemma begin_facts [simp]:
  "state (makeClaudeRequest_begin r w) = state w"
  "isRequestCancelled (makeClaudeRequest_begin r w) = False"
  "isAborting (makeClaudeRequest_begin r w) = isAborting w"
  "consecutiveErrorCount (makeClaudeRequest_begin r w) = consecutiveErrorCount w"
  "currentUserContent (makeClaudeRequest_begin r w) = currentUserContent w"
  "apiConversationHistory (makeClaudeRequest_begin r w) =
     apiConversationHistory w @
       [\<lparr>role = User, hist_ts = None,
         content = ContentBlocks (case currentUserContent w of None \<Rightarrow> [] | Some c \<Rightarrow> c)\<rparr>]"
  by (simp_all add: makeClaudeRequest_begin_def Let_def emit_def ask_event_def
      addToApiConversationHistory_def sayEntry_def)


lemma handleApiError_history:
  "apiConversationHistory (fst (handleApiError a s err w)) =
     (let hist = apiConversationHistory w
      in if hist \<noteq> [] \<and> role (last hist) = Assistant
         then (case hist_ts (last hist) of
                 None \<Rightarrow> hist
               | Some t \<Rightarrow>
                   if t = 0 then hist
                   else updateApiHistoryItem t (rewrite_blank_assistant (last hist))
                          (butlast hist @ [rewrite_blank_assistant (last hist)]))
         else hist)"
  by (simp add: handleApiError_def Let_def ask_event_def sayEntry_def emit_def
      split: option.splits)

lemma handleApiError_count [simp]:
  "consecutiveErrorCount (fst (handleApiError a s err w)) = Suc (consecutiveErrorCount w)"
  by (simp add: handleApiError_def Let_def ask_event_def sayEntry_def emit_def
      split: option.splits)

lemma handleApiError_flags [simp]:
  "isRequestCancelled (fst (handleApiError a s err w)) = isRequestCancelled w"
  "isAborting (fst (handleApiError a s err w)) = isAborting w"
  "currentUserContent (fst (handleApiError a s err w)) = currentUserContent w"
  by (simp_all add: handleApiError_def Let_def ask_event_def sayEntry_def emit_def
      split: option.splits)

lemma rewrite_blank_assistant_facts:
  assumes "content h = ContentBlocks [TextBlock t]"
  shows "content (rewrite_blank_assistant h) =
           ContentBlocks [TextBlock (if trim t \<noteq> [] then trim t else error_marker)]"
    and "hist_ts (rewrite_blank_assistant h) = hist_ts h"
    and "role (rewrite_blank_assistant h) = role h"
  using assms by (simp_all add: rewrite_blank_assistant_def Let_def)

lemma finishProcessingResponse_history:
  assumes "\<not> isRequestCancelled w" and "\<not> isAborting w"
    and "apiConversationHistory w = H0 @ [h]" and "hist_ts h = Some i" and "i \<noteq> 0"
    and "content h = ContentBlocks [TextBlock t]"
    and "\<forall>x \<in> set H0. hist_ts x \<noteq> Some i"
  shows "\<exists>rest. apiConversationHistory (fst (finishProcessingResponse results h w)) =
           H0 @ (if trim t = []
                 then \<lparr>role = Assistant, hist_ts = Some i,
                       content = ContentBlocks [TextBlock failed_marker]\<rparr>
                 else h) # rest"
  using assms updateApiHistoryItem_fresh_last [OF assms(7,4),
      of "\<lparr>role = Assistant, hist_ts = None, content = ContentBlocks [TextBlock failed_marker]\<rparr>"]
  by (simp add: finishProcessingResponse_def Let_def needs_failure_marker_def
      addToApiConversationHistory_def split: option.splits)

lemma finishProcessingResponse_no_results:
  assumes "\<not> isRequestCancelled w" and "\<not> isAborting w"
  shows "snd (finishProcessingResponse [] h w)"
    and "state (fst (finishProcessingResponse [] h w)) = WAITING_FOR_API"
    and "currentUserContent (fst (finishProcessingResponse [] h w)) =
           Some [TextBlock must_use_tool_prompt]"
    and "isRequestCancelled (fst (finishProcessingResponse [] h w)) = False"
    and "isAborting (fst (finishProcessingResponse [] h w)) = False"
  using assms
  by (simp_all add: finishProcessingResponse_def Let_def emit_def split: option.splits)

lemma response_start_facts [simp]:
  "state (exec (response_start r w)) = PROCESSING_RESPONSE"
  "isRequestCancelled (exec (response_start r w)) = False"
  "isAborting (exec (response_start r w)) = isAborting w"
  "consecutiveErrorCount (exec (response_start r w)) = consecutiveErrorCount w"
  "currentUserContent (exec (response_start r w)) = currentUserContent w"
  by (simp_all add: response_start_def Let_def addToApiConversationHistory_def)

lemma response_end_facts [simp]:
  "state (exec (fst (response_end r w))) = PROCESSING_RESPONSE"
  "isRequestCancelled (exec (fst (response_end r w))) = False"
  "isAborting (exec (fst (response_end r w))) = isAborting w"
  "consecutiveErrorCount (exec (fst (response_end r w))) = consecutiveErrorCount w"
  "currentUserContent (exec (fst (response_end r w))) = currentUserContent w"
  using processStream_frame [of "startedReqTs r" "koduErrorMessage r" "streamEvents r"
      "response_start r w"]
  by (simp_all add: response_end_def)

lemma processApiResponse_shape:
  assumes "\<not> isAborting w"
  shows "processApiResponse r (startedReqTs r)
           ((makeClaudeRequest_begin r w)\<lparr>state := PROCESSING_RESPONSE\<rparr>) =
         (case snd (response_end r w) of
            Some e \<Rightarrow> (exec (fst (response_end r w)), Some e, False)
          | None \<Rightarrow>
              (case streamThrows r of
                 Some e \<Rightarrow> (exec (fst (response_end r w)), Some e, False)
               | None \<Rightarrow>
                   if end_of_stream_received (streamEvents r)
                   then (fst (onFinalEndOfStream r (replyTs r) (fst (response_end r w))), None,
                         snd (onFinalEndOfStream r (replyTs r) (fst (response_end r w))))
                   else (exec (fst (response_end r w)), None, False)))"
  using assms
  by (simp add: processApiResponse_def response_end_def response_start_def Let_def
      split: prod.splits option.splits)

lemma round_error_shape:
  assumes "\<not> isAborting w"
  shows "round_error r w =
           (case snd (response_end r w) of Some e \<Rightarrow> Some e | None \<Rightarrow> streamThrows r)"
  using assms
  by (simp add: round_error_def Let_def processApiResponse_shape split: option.splits)

lemma round_shape:
  assumes "\<not> isAborting w"
  shows "makeClaudeRequest_round r w =
         (case round_error r w of
            Some e \<Rightarrow>
              handleApiError (retryResponse r) (errorSayTs r) (classify_error e)
                (exec (fst (response_end r w)))
          | None \<Rightarrow>
              if end_of_stream_received (streamEvents r)
              then onFinalEndOfStream r (replyTs r) (fst (response_end r w))
              else (exec (fst (response_end r w)), False))"
  using assms
  by (simp add: makeClaudeRequest_round_def Let_def processApiResponse_shape
      round_error_shape split: option.splits)

lemma response_start_tracked:
  assumes "\<forall>h \<in> set (apiConversationHistory w). hist_ts h \<noteq> Some (startedReqTs r)"
  shows "assistant_turn_tracked
           (apiConversationHistory w @
             [\<lparr>role = User, hist_ts = None,
               content = ContentBlocks (case currentUserContent w of None \<Rightarrow> [] | Some c \<Rightarrow> c)\<rparr>])
           (startedReqTs r) (response_start r w)"
  using assms
  by (simp add: assistant_turn_tracked_def response_start_def Let_def
      addToApiConversationHistory_def)

lemma response_end_tracked:
  assumes "\<forall>h \<in> set (apiConversationHistory w). hist_ts h \<noteq> Some (startedReqTs r)"
  shows "assistant_turn_tracked
           (apiConversationHistory w @
             [\<lparr>role = User, hist_ts = None,
               content = ContentBlocks (case currentUserContent w of None \<Rightarrow> [] | Some c \<Rightarrow> c)\<rparr>])
           (startedReqTs r) (fst (response_end r w))"
  unfolding response_end_def
  by (rule processStream_tracked [OF response_start_tracked [OF assms]])

lemma onFinalEndOfStream_flush_facts [simp]:
  "apiConversationHistory (onFinalEndOfStream_flush r i ps) = apiConversationHistory (exec ps)"
  "isRequestCancelled (onFinalEndOfStream_flush r i ps) = isRequestCancelled (exec ps)"
  "isAborting (onFinalEndOfStream_flush r i ps) = isAborting (exec ps)"
  "state (onFinalEndOfStream_flush r i ps) = state (exec ps)"
  "consecutiveErrorCount (onFinalEndOfStream_flush r i ps) = consecutiveErrorCount (exec ps)"
  "currentUserContent (onFinalEndOfStream_flush r i ps) = currentUserContent (exec ps)"
  by (simp_all add: onFinalEndOfStream_flush_def Let_def)

section \<open>Facts about the message list and the search for the last tool request\<close>

lemma getMessageById_distinct:
  "distinct (map ts ms) \<Longrightarrow> m \<in> set ms \<Longrightarrow> getMessageById (ts m) ms = Some m"
  by (induction ms) (auto simp: image_iff)

lemma getMessageById_update_same:
  "getMessageById i ms = Some old \<Longrightarrow> ts m' = i \<Longrightarrow>
   getMessageById i (updateClaudeMessage i m' ms) = Some m'"
  by (induction ms) (auto split: if_splits)

lemma getMessageById_update_other:
  "j \<noteq> i \<Longrightarrow> ts m' = i \<Longrightarrow>
   getMessageById j (updateClaudeMessage i m' ms) = getMessageById j ms"
  by (induction ms) auto

lemma find_lastToolRequest_skip:
  "\<forall>x \<in> set xs. \<not> (isV1 x \<and> ask x = Some Ask_tool) \<Longrightarrow>
   find_lastToolRequest parse (xs @ ys) = find_lastToolRequest parse ys"
  by (induction xs) auto

lemma find_lastToolRequest_last:
  assumes "isV1 m" and "ask m = Some Ask_tool"
    and "\<forall>x \<in> set post. \<not> (isV1 x \<and> ask x = Some Ask_tool)"
    and "parse (text_or_empty_object m) = Some tool"
    and "approvalState tool \<noteq> Some ''error''"
  shows "find_lastToolRequest parse (rev (pre @ m # post)) = Inr (Some m)"
proof -
  have "find_lastToolRequest parse (rev post @ m # rev pre) = find_lastToolRequest parse (m # rev pre)"
    using assms(3) by (intro find_lastToolRequest_skip) simp
  then show ?thesis using assms(1,2,4,5) by simp
qed

lemma distinct_ts_eq:
  "distinct (map ts ms) \<Longrightarrow> a \<in> set ms \<Longrightarrow> b \<in> set ms \<Longrightarrow> ts a = ts b \<Longrightarrow> a = b"
  by (meson distinct_map inj_onD)

lemma abortTask_messages:
  assumes "\<not> isAborting w" and "\<not> isRequestCancelled w" and "length (claudeMessages w) \<noteq> 2"
    and "claudeMessages w = pre @ m # post"
    and "isV1 m" and "ask m = Some Ask_tool"
    and "\<forall>x \<in> set post. \<not> (isV1 x \<and> ask x = Some Ask_tool)"
    and "parse (text_or_empty_object m) = Some tool"
    and "approvalState tool \<noteq> Some ''approved''" and "approvalState tool \<noteq> Some ''error''"
    and "getMessageById (ts m) (claudeMessages w) = Some m"
  shows "\<exists>w'. abortTask parse stringify now w = Returned w'
     \<and> claudeMessages w' =
        (let ms1 = updateClaudeMessage (ts m)
                     (m\<lparr>msg_type := Ask, ask := Some Ask_tool,
                        msg_text := Some (stringify
                          (tool\<lparr>approvalState := Some ''error'',
                                error := Some tool_interrupted_message\<rparr>))\<rparr>)
                     (claudeMessages w)
         in case find (\<lambda>x. msg_type x = Say \<and> say x = Some Say_api_req_started)
                   (rev (claudeMessages w)) of
              None \<Rightarrow> ms1
            | Some req \<Rightarrow>
                if isV1 req \<and> \<not> isDone req
                then updateClaudeMessage (ts req)
                       (req\<lparr>isDone := True, isFetching := False,
                            errorText := Some request_cancelled_text, isError := True\<rparr>) ms1
                else ms1)"
proof -
  have f: "find_lastToolRequest parse (rev (claudeMessages w)) = Inr (Some m)"
    unfolding assms(4)
    using find_lastToolRequest_last [of m post parse tool pre] assms(5,6,7,8,10) by blast
  show ?thesis
    using assms(1,2,3,8,9,11) f
    by (simp add: abortTask_def cancelCurrentRequest_def Let_def updateAsk_def
        resetState_def postStateToWebview_def ask_event_def emit_def
        split: option.splits)
qed

section \<open>The text accumulated in the assistant turn\<close>

lemma onChunk_text:
  assumes "\<not> isRequestCancelled (exec ps)" and "\<not> isAborting (exec ps)"
    and "chunk ev = Delta t" and "content (apiHistoryItem ps) = ContentBlocks [TextBlock t0]"
  shows "content (apiHistoryItem (onChunk i ev ps)) = ContentBlocks [TextBlock (add_text t0 t)]"
  using assms by (simp add: onChunk_def Let_def add_delta_def)

lemma onImmediateEndOfStream_raises:
  assumes "\<not> isRequestCancelled w" and "\<not> isAborting w"
  shows "snd (onImmediateEndOfStream i km (SuccessEnd m) w) = None"
    and "snd (onImmediateEndOfStream i km (ErrorEnd a b) w) \<noteq> None"
  using assms by (simp_all add: onImmediateEndOfStream_def Let_def)

lemma processStream_text:
  "\<not> isRequestCancelled (exec ps) \<Longrightarrow> \<not> isAborting (exec ps) \<Longrightarrow>
   content (apiHistoryItem ps) = ContentBlocks [TextBlock t0] \<Longrightarrow>
   content (apiHistoryItem (fst (processStream i km evs ps))) =
     ContentBlocks [TextBlock (foldl add_text t0 (delta_texts evs))]"
proof (induction evs arbitrary: ps t0)
  case Nil
  then show ?case by simp
next
  case (Cons ev evs)
  show ?case
  proof (cases "chunk ev")
    case (Delta t)
    have "content (apiHistoryItem (fst (processStream i km evs (onChunk i ev ps)))) =
            ContentBlocks [TextBlock (foldl add_text (add_text t0 t) (delta_texts evs))]"
      using Cons.prems onChunk_text [OF Cons.prems(1,2) Delta Cons.prems(3), of i]
      by (intro Cons.IH) simp_all
    then show ?thesis using Delta by simp
  next
    case (OtherChunk n)
    then show ?thesis using Cons.IH [OF Cons.prems] by simp
  next
    case (SuccessEnd m)
    obtain w' e where o: "onImmediateEndOfStream i km (chunk ev) (exec ps) = (w', e)"
      by (cases "onImmediateEndOfStream i km (chunk ev) (exec ps)")
    have e: "e = None"
      using onImmediateEndOfStream_raises(1) [OF Cons.prems(1,2), of i km m] o SuccessEnd
      by simp
    have fl: "\<not> isRequestCancelled w'" "\<not> isAborting w'"
      using onImmediateEndOfStream_frame(2,3) [of i km "chunk ev" "exec ps"] Cons.prems(1,2)
      unfolding o by simp_all
    have "content (apiHistoryItem (fst (processStream i km evs (ps\<lparr>exec := w'\<rparr>)))) =
            ContentBlocks [TextBlock (foldl add_text t0 (delta_texts evs))]"
      using fl Cons.prems(3) by (intro Cons.IH) simp_all
    then show ?thesis using SuccessEnd o e by simp
  next
    case (ErrorEnd a b)
    obtain w' e where o: "onImmediateEndOfStream i km (chunk ev) (exec ps) = (w', e)"
      by (cases "onImmediateEndOfStream i km (chunk ev) (exec ps)")
    have e: "e \<noteq> None"
      using onImmediateEndOfStream_raises(2) [OF Cons.prems(1,2), of i km a b] o ErrorEnd
      by simp
    then obtain x where x: "e = Some x" by blast
    show ?thesis using ErrorEnd o x Cons.prems(3) by simp
  qed
qed

lemma response_end_text:
  assumes "\<not> isAborting w"
  shows "content (apiHistoryItem (fst (response_end r w))) =
           ContentBlocks [TextBlock (accumulated_reply (streamEvents r))]"
  unfolding response_end_def accumulated_reply_def
  using assms
  by (intro processStream_text) (simp_all add: response_start_def Let_def
      addToApiConversationHistory_def)

lemma handleApiError_entry:
  assumes "apiConversationHistory w = H0 @ [h]" and "hist_ts h = Some i" and "i \<noteq> 0"
    and "role h = Assistant" and "content h = ContentBlocks [TextBlock t]"
    and "\<forall>x \<in> set H0. hist_ts x \<noteq> Some i"
  shows "getApiHistoryItem i (apiConversationHistory (fst (handleApiError a s err w))) =
           Some (h\<lparr>content := ContentBlocks
                     [TextBlock (if trim t \<noteq> [] then trim t else error_marker)]\<rparr>)"
proof -
  let ?h = "rewrite_blank_assistant h"
  have ts: "hist_ts ?h = Some i" and r: "role ?h = Assistant"
    using rewrite_blank_assistant_facts [OF assms(5)] assms(2,4) by simp_all
  have eq: "?h = h\<lparr>content := ContentBlocks
                     [TextBlock (if trim t \<noteq> [] then trim t else error_marker)]\<rparr>"
    using assms(5) by (simp add: rewrite_blank_assistant_def Let_def)
  have "apiConversationHistory (fst (handleApiError a s err w)) =
          updateApiHistoryItem i ?h (H0 @ [?h])"
    using assms(1-4) by (simp add: handleApiError_history)
  also have "\<dots> = H0 @ [?h]"
    using updateApiHistoryItem_fresh_last [OF assms(6) ts, of ?h] ts by simp
  finally have hist: "apiConversationHistory (fst (handleApiError a s err w)) = H0 @ [?h]" .
  have "getApiHistoryItem i (H0 @ [?h]) = Some ?h"
    using getApiHistoryItem_fresh [OF assms(6), of "[?h]"] ts by simp
  then show ?thesis unfolding hist eq .
qed

lemma finishProcessingResponse_entry:
  assumes "\<not> isRequestCancelled w" and "\<not> isAborting w"
    and "apiConversationHistory w = H0 @ [h]" and "hist_ts h = Some i" and "i \<noteq> 0"
    and "role h = Assistant" and "content h = ContentBlocks [TextBlock t]"
    and "\<forall>x \<in> set H0. hist_ts x \<noteq> Some i"
  shows "getApiHistoryItem i
           (apiConversationHistory (fst (finishProcessingResponse results h w))) =
         Some (h\<lparr>content := ContentBlocks
                   [TextBlock (if trim t = [] then failed_marker else t)]\<rparr>)"
proof -
  obtain rest where
    hist: "apiConversationHistory (fst (finishProcessingResponse results h w)) =
           H0 @ (if trim t = []
                 then \<lparr>role = Assistant, hist_ts = Some i,
                       content = ContentBlocks [TextBlock failed_marker]\<rparr>
                 else h) # rest"
    using finishProcessingResponse_history [OF assms(1-5,7,8)] by blast
  have eq: "\<lparr>role = Assistant, hist_ts = Some i,
             content = ContentBlocks [TextBlock failed_marker]\<rparr> =
            h\<lparr>content := ContentBlocks [TextBlock failed_marker]\<rparr>"
    using assms(4,6) by (cases h) simp
  have same: "h\<lparr>content := ContentBlocks [TextBlock t]\<rparr> = h"
    using assms(7) by (cases h) simp
  show ?thesis
    using assms(4) getApiHistoryItem_fresh [OF assms(8)] eq same
    by (simp add: hist)
qed

section \<open>Facts about the error handler\<close>

lemma handleApiError_events:
  "events (fst (handleApiError a s err w)) =
     events w @ [ResetToolState]
     @ (if error_type err = PAYMENT_REQUIRED \<or> error_type err = UNAUTHORIZED then []
        else [AskIssued Ask_api_req_failed (message err)])"
  by (simp add: handleApiError_def Let_def ask_event_def sayEntry_def emit_def
      split: option.splits)

lemma handleApiError_messages:
  "claudeMessages (fst (handleApiError a s err w)) =
     (if error_type err = PAYMENT_REQUIRED \<or> error_type err = UNAUTHORIZED
      then claudeMessages
             (sayEntry (if error_type err = PAYMENT_REQUIRED then Say_payment_required
                        else Say_unauthorized) (Some (message err)) s False w)
      else if response a = yesButtonTapped \<or> response a = messageResponse
      then claudeMessages (sayEntry Say_api_req_retried None s False w)
      else claudeMessages w)"
  by (simp add: handleApiError_def Let_def ask_event_def sayEntry_def emit_def
      split: option.splits)

lemma handleApiError_outcome:
  "snd (handleApiError a s err w) \<longleftrightarrow>
     \<not> (error_type err = PAYMENT_REQUIRED \<or> error_type err = UNAUTHORIZED)
     \<and> (response a = yesButtonTapped \<or> response a = messageResponse)"
  "state (fst (handleApiError a s err w)) =
     (if error_type err = PAYMENT_REQUIRED \<or> error_type err = UNAUTHORIZED then IDLE
      else if response a = yesButtonTapped \<or> response a = messageResponse
      then WAITING_FOR_API else COMPLETED)"
  by (simp_all add: handleApiError_def Let_def ask_event_def sayEntry_def emit_def
      split: option.splits)


section \<open>Abort while a tool waits for approval\<close>

text \<open>
  C1 (amended). Let \<open>abortTask\<close> be called while no abort is in progress, the request
  is not already cancelled and the message list does not hold exactly two messages;
  let the timestamps of the messages be distinct, and let the most recent tool ask
  (a version-1 message of type ask with ask kind tool) carry a payload whose approval
  state is neither \<open>approved\<close> nor \<open>error\<close>. Then \<open>abortTask\<close> returns, and
  afterwards that entry carries the serialised payload with approval state \<open>error\<close>
  and the (non-empty) message that the task was interrupted; and if the most recent
  request-started entry is a version-1 message that is not done, it is afterwards
  done, not fetching, flagged as an error, with the error text
  \<open>Request cancelled by user\<close>.
\<close>

theorem abort_marks_pending_tool_and_open_request:
  assumes "\<not> isAborting w" and "\<not> isRequestCancelled w" and "length (claudeMessages w) \<noteq> 2"
    and "distinct (map ts (claudeMessages w))"
    and "claudeMessages w = pre @ m # post"
    and "msg_type m = Ask" and "isV1 m" and "ask m = Some Ask_tool"
    and "\<forall>x \<in> set post. \<not> (isV1 x \<and> ask x = Some Ask_tool)"
    and "parse (text_or_empty_object m) = Some tool"
    and "approvalState tool \<noteq> Some ''approved''" and "approvalState tool \<noteq> Some ''error''"
  shows "\<exists>w'. abortTask parse stringify now w = Returned w'
     \<and> getMessageById (ts m) (claudeMessages w') =
         Some (m\<lparr>msg_text := Some (stringify
                  (tool\<lparr>approvalState := Some ''error'',
                        error := Some tool_interrupted_message\<rparr>))\<rparr>)
     \<and> tool_interrupted_message \<noteq> []
     \<and> (\<forall>pre' req post'.
           claudeMessages w = pre' @ req # post'
           \<and> msg_type req = Say \<and> say req = Some Say_api_req_started
           \<and> (\<forall>x \<in> set post'. \<not> (msg_type x = Say \<and> say x = Some Say_api_req_started))
           \<and> isV1 req \<and> \<not> isDone req \<longrightarrow>
           getMessageById (ts req) (claudeMessages w') =
             Some (req\<lparr>isDone := True, isFetching := False,
                       errorText := Some request_cancelled_text, isError := True\<rparr>))"
proof -
  let ?m' = "m\<lparr>msg_text := Some (stringify
                  (tool\<lparr>approvalState := Some ''error'',
                        error := Some tool_interrupted_message\<rparr>))\<rparr>"
  let ?ms1 = "updateClaudeMessage (ts m) ?m' (claudeMessages w)"
  let ?started = "\<lambda>x. msg_type x = Say \<and> say x = Some Say_api_req_started"
  have min: "m \<in> set (claudeMessages w)" by (simp add: assms(5))
  have gm: "getMessageById (ts m) (claudeMessages w) = Some m"
    by (rule getMessageById_distinct [OF assms(4) min])
  have m'eq: "m\<lparr>msg_type := Ask, ask := Some Ask_tool,
                 msg_text := Some (stringify
                   (tool\<lparr>approvalState := Some ''error'',
                         error := Some tool_interrupted_message\<rparr>))\<rparr> = ?m'"
    using assms(6,8) by (cases m) simp
  from abortTask_messages [where w = w and pre = pre and m = m and post = post
        and parse = parse and tool = tool and stringify = stringify and now = now,
        OF assms(1,2,3,5,7,8,9,10,11,12) gm]
  obtain w' where ab: "abortTask parse stringify now w = Returned w'"
    and ms0: "claudeMessages w' =
        (let ms1 = updateClaudeMessage (ts m)
                     (m\<lparr>msg_type := Ask, ask := Some Ask_tool,
                        msg_text := Some (stringify
                          (tool\<lparr>approvalState := Some ''error'',
                                error := Some tool_interrupted_message\<rparr>))\<rparr>)
                     (claudeMessages w)
         in case find ?started (rev (claudeMessages w)) of
              None \<Rightarrow> ms1
            | Some req \<Rightarrow>
                if isV1 req \<and> \<not> isDone req
                then updateClaudeMessage (ts req)
                       (req\<lparr>isDone := True, isFetching := False,
                            errorText := Some request_cancelled_text, isError := True\<rparr>) ms1
                else ms1)"
    by (elim exE conjE)
  have ms: "claudeMessages w' =
        (case find ?started (rev (claudeMessages w)) of
           None \<Rightarrow> ?ms1
         | Some req \<Rightarrow>
             if isV1 req \<and> \<not> isDone req
             then updateClaudeMessage (ts req)
                    (req\<lparr>isDone := True, isFetching := False,
                         errorText := Some request_cancelled_text, isError := True\<rparr>) ?ms1
             else ?ms1)"
    using ms0 unfolding m'eq Let_def .
  have g1: "getMessageById (ts m) ?ms1 = Some ?m'"
    by (rule getMessageById_update_same [OF gm]) simp
  have req_in: "\<And>req. find ?started (rev (claudeMessages w)) = Some req \<Longrightarrow>
                  req \<in> set (claudeMessages w) \<and> ts req \<noteq> ts m"
  proof -
    fix req assume f: "find ?started (rev (claudeMessages w)) = Some req"
    then have st: "?started req" and rin: "req \<in> set (rev (claudeMessages w))"
      by (auto simp only: find_Some_iff nth_mem)
    have "req \<noteq> m" using st assms(6) by auto
    then show "req \<in> set (claudeMessages w) \<and> ts req \<noteq> ts m"
      using rin min distinct_ts_eq [OF assms(4), of req m] by auto
  qed
  have tool_part: "getMessageById (ts m) (claudeMessages w') = Some ?m'"
  proof (cases "find ?started (rev (claudeMessages w))")
    case None
    then show ?thesis using g1 by (simp add: ms)
  next
    case (Some req)
    then show ?thesis
      using g1 req_in [OF Some] by (simp add: ms getMessageById_update_other)
  qed
  have req_part: "getMessageById (ts req) (claudeMessages w') =
             Some (req\<lparr>isDone := True, isFetching := False,
                       errorText := Some request_cancelled_text, isError := True\<rparr>)"
    if d: "claudeMessages w = pre' @ req # post'" and st: "?started req"
      and la: "\<forall>x \<in> set post'. \<not> ?started x" and v: "isV1 req" and nd: "\<not> isDone req"
    for pre' req post'
  proof -
    have f: "find ?started (rev (claudeMessages w)) = Some req"
      unfolding d using find_rev_last [of ?started req post' pre'] st la by blast
    have ne: "ts req \<noteq> ts m" and rin: "req \<in> set (claudeMessages w)"
      using req_in [OF f] by simp_all
    have "getMessageById (ts req) ?ms1 = Some req"
      using getMessageById_distinct [OF assms(4) rin] ne
      by (simp add: getMessageById_update_other)
    then show ?thesis
      using f v nd by (simp add: ms getMessageById_update_same)
  qed
  have "tool_interrupted_message \<noteq> []" by (simp add: tool_interrupted_message_def)
  then show ?thesis using ab tool_part req_part by blast
qed

theorem abort_marks_pending_tool_and_open_request_witness:
  "\<exists>w'. abortTask example_parse example_stringify 9 three_message_executor = Returned w'
     \<and> getMessageById 3 (claudeMessages w') = Some (ask_entry 3 Ask_tool interrupted_tool_text)
     \<and> getMessageById 2 (claudeMessages w') =
         Some ((say_entry 2 Say_api_req_started ''{}'')
                 \<lparr>isDone := True, isFetching := False,
                  errorText := Some ''Request cancelled by user'', isError := True\<rparr>)"
proof -
  have h: "\<not> isAborting three_message_executor" "\<not> isRequestCancelled three_message_executor"
    "length (claudeMessages three_message_executor) \<noteq> 2"
    "distinct (map ts (claudeMessages three_message_executor))"
    "claudeMessages three_message_executor =
       [say_entry 1 Say_text ''list files'', say_entry 2 Say_api_req_started ''{}'']
       @ ask_entry 3 Ask_tool pending_tool_text # []"
    "msg_type (ask_entry 3 Ask_tool pending_tool_text) = Ask"
    "isV1 (ask_entry 3 Ask_tool pending_tool_text)"
    "ask (ask_entry 3 Ask_tool pending_tool_text) = Some Ask_tool"
    "\<forall>x \<in> set []. \<not> (isV1 x \<and> ask x = Some Ask_tool)"
    "example_parse (text_or_empty_object (ask_entry 3 Ask_tool pending_tool_text)) = Some pending_tool"
    "approvalState pending_tool \<noteq> Some ''approved''"
    "approvalState pending_tool \<noteq> Some ''error''"
    by (simp_all add: three_message_executor_def initial_executor_def say_entry_def
        ask_entry_def example_parse_def text_or_empty_object_def pending_tool_def)
  have s: "example_stringify
             (pending_tool\<lparr>approvalState := Some ''error'',
                error := Some tool_interrupted_message\<rparr>) = interrupted_tool_text"
    by (simp add: example_stringify_def pending_tool_def tool_interrupted_message_def
        interrupted_tool_text_def)
  have d: "claudeMessages three_message_executor =
       [say_entry 1 Say_text ''list files''] @ say_entry 2 Say_api_req_started ''{}''
       # [ask_entry 3 Ask_tool pending_tool_text]"
    by (simp add: three_message_executor_def initial_executor_def)
  from abort_marks_pending_tool_and_open_request
    [where w = three_message_executor
       and pre = "[say_entry 1 Say_text ''list files'', say_entry 2 Say_api_req_started ''{}'']"
       and m = "ask_entry 3 Ask_tool pending_tool_text" and post = "[]"
       and parse = example_parse and tool = pending_tool
       and stringify = example_stringify and now = 9, OF h]
  obtain w' where a: "abortTask example_parse example_stringify 9 three_message_executor = Returned w'"
    and b: "getMessageById (ts (ask_entry 3 Ask_tool pending_tool_text)) (claudeMessages w') =
         Some ((ask_entry 3 Ask_tool pending_tool_text)\<lparr>msg_text := Some (example_stringify
                  (pending_tool\<lparr>approvalState := Some ''error'',
                        error := Some tool_interrupted_message\<rparr>))\<rparr>)"
    and c: "\<forall>pre' req post'.
           claudeMessages three_message_executor = pre' @ req # post'
           \<and> msg_type req = Say \<and> say req = Some Say_api_req_started
           \<and> (\<forall>x \<in> set post'. \<not> (msg_type x = Say \<and> say x = Some Say_api_req_started))
           \<and> isV1 req \<and> \<not> isDone req \<longrightarrow>
           getMessageById (ts req) (claudeMessages w') =
             Some (req\<lparr>isDone := True, isFetching := False,
                       errorText := Some request_cancelled_text, isError := True\<rparr>)"
    by (elim exE conjE)
  have c': "getMessageById 2 (claudeMessages w') =
         Some ((say_entry 2 Say_api_req_started ''{}'')
                 \<lparr>isDone := True, isFetching := False,
                  errorText := Some ''Request cancelled by user'', isError := True\<rparr>)"
    using c [rule_format, of "[say_entry 1 Say_text ''list files'']"
        "say_entry 2 Say_api_req_started ''{}''" "[ask_entry 3 Ask_tool pending_tool_text]"] d
    by (simp add: say_entry_def ask_entry_def request_cancelled_text_def)
  have b': "getMessageById 3 (claudeMessages w') = Some (ask_entry 3 Ask_tool interrupted_tool_text)"
    using b unfolding s by (simp add: ask_entry_def)
  show ?thesis using a b' c' by blast
qed

text \<open>
  With exactly two messages, a request-started entry that is not done and a tool ask
  awaiting approval, the abort rewrites neither of them.
\<close>

theorem abort_on_two_messages_rewrites_nothing:
  "abortTask example_parse example_stringify 9 two_message_executor =
     Returned (two_message_executor\<lparr>state := WAITING_FOR_USER, lastFlushTime := 9,
                 events := [ToolAbortTask, PostStateToWebview]\<rparr>)
   \<and> getMessageById 3 (claudeMessages two_message_executor) =
       Some (ask_entry 3 Ask_tool pending_tool_text)
   \<and> example_parse pending_tool_text = Some pending_tool
   \<and> approvalState pending_tool = Some ''pending''
   \<and> getMessageById 2 (claudeMessages two_message_executor) =
       Some (say_entry 2 Say_api_req_started ''{}'')
   \<and> \<not> isDone (say_entry 2 Say_api_req_started ''{}'')"
  by (simp add: abortTask_def cancelCurrentRequest_def two_message_executor_def
      initial_executor_def resetState_def emit_def postStateToWebview_def
      say_entry_def ask_entry_def example_parse_def pending_tool_def)

section \<open>The assistant turn of a concluded round\<close>

lemma concluded_round_entry:
  assumes "makeClaudeRequest_guard w" and "round_concludes r w"
    and "startedReqTs r \<noteq> 0"
    and "\<forall>h \<in> set (apiConversationHistory w). hist_ts h \<noteq> Some (startedReqTs r)"
    and "acc = accumulated_reply (streamEvents r)"
  shows "nonblank_assistant_entry (startedReqTs r)
           (apiConversationHistory (fst (makeClaudeRequest_round r w)))
    \<and> getApiHistoryItem (startedReqTs r)
         (apiConversationHistory (fst (makeClaudeRequest_round r w))) =
       Some \<lparr>role = Assistant, hist_ts = Some (startedReqTs r),
             content = ContentBlocks
               [TextBlock
                  (case round_error r w of
                     None \<Rightarrow> if trim acc = [] then failed_marker else acc
                   | Some e \<Rightarrow> if trim acc = [] then error_marker else trim acc)]\<rparr>"
proof -
  have na: "\<not> isAborting w" using assms(1) by (simp add: makeClaudeRequest_guard_def)
  let ?ps = "fst (response_end r w)"
  let ?h = "apiHistoryItem ?ps"
  let ?H0 = "apiConversationHistory w @
             [\<lparr>role = User, hist_ts = None,
               content = ContentBlocks (case currentUserContent w of None \<Rightarrow> [] | Some c \<Rightarrow> c)\<rparr>]"
  have tr: "assistant_turn_tracked ?H0 (startedReqTs r) ?ps"
    by (rule response_end_tracked [OF assms(4)])
  have hist: "apiConversationHistory (exec ?ps) = ?H0 @ [?h]"
    and ts: "hist_ts ?h = Some (startedReqTs r)"
    and ro: "role ?h = Assistant"
    and fresh: "\<forall>x \<in> set ?H0. hist_ts x \<noteq> Some (startedReqTs r)"
    using tr unfolding assistant_turn_tracked_def by blast+
  have t: "content ?h = ContentBlocks [TextBlock acc]"
    unfolding assms(5) by (rule response_end_text [OF na])
  have rec: "\<And>c. ?h\<lparr>content := c\<rparr> =
               \<lparr>role = Assistant, hist_ts = Some (startedReqTs r), content = c\<rparr>"
    using ts ro by (cases ?h) simp
  have entry: "getApiHistoryItem (startedReqTs r)
         (apiConversationHistory (fst (makeClaudeRequest_round r w))) =
       Some \<lparr>role = Assistant, hist_ts = Some (startedReqTs r),
             content = ContentBlocks
               [TextBlock
                  (case round_error r w of
                     None \<Rightarrow> if trim acc = [] then failed_marker else acc
                   | Some e \<Rightarrow> if trim acc = [] then error_marker else trim acc)]\<rparr>"
  proof (cases "round_error r w")
    case None
    have en: "end_of_stream_received (streamEvents r)"
      using assms(2) None by (simp add: round_concludes_def)
    have hist': "apiConversationHistory (onFinalEndOfStream_flush r (replyTs r) ?ps) = ?H0 @ [?h]"
      using hist by simp
    have fl: "\<not> isRequestCancelled (onFinalEndOfStream_flush r (replyTs r) ?ps)"
      "\<not> isAborting (onFinalEndOfStream_flush r (replyTs r) ?ps)"
      using na by simp_all
    have "getApiHistoryItem (startedReqTs r)
            (apiConversationHistory
              (fst (finishProcessingResponse (toolResults r) ?h
                     (onFinalEndOfStream_flush r (replyTs r) ?ps)))) =
          Some (?h\<lparr>content := ContentBlocks
                   [TextBlock (if trim acc = [] then failed_marker else acc)]\<rparr>)"
      by (rule finishProcessingResponse_entry [OF fl hist' ts assms(3) ro t fresh])
    then show ?thesis using None na en by (simp add: round_shape onFinalEndOfStream_def rec)
  next
    case (Some e)
    have "getApiHistoryItem (startedReqTs r)
            (apiConversationHistory
               (fst (handleApiError (retryResponse r) (errorSayTs r) (classify_error e)
                      (exec ?ps)))) =
          Some (?h\<lparr>content := ContentBlocks
                   [TextBlock (if trim acc \<noteq> [] then trim acc else error_marker)]\<rparr>)"
      by (rule handleApiError_entry [OF hist ts assms(3) ro t fresh])
    then show ?thesis using Some na by (simp add: round_shape rec)
  qed
  have "nonblank_assistant_entry (startedReqTs r)
           (apiConversationHistory (fst (makeClaudeRequest_round r w)))"
    using trim_trim_nonblank [of acc]
    by (simp add: nonblank_assistant_entry_def entry split: option.splits)
  then show ?thesis using entry by simp
qed

lemma foldl_add_text_append:
  "\<forall>n < length ds. t0 @ concat (take n ds) \<noteq> interrupted_placeholder \<Longrightarrow>
   foldl add_text t0 ds = t0 @ concat ds"
proof (induction ds arbitrary: t0)
  case Nil
  then show ?case by simp
next
  case (Cons d ds)
  have t0: "t0 \<noteq> interrupted_placeholder"
    using Cons.prems [rule_format, of 0] by simp
  have "\<forall>n < length ds. (t0 @ d) @ concat (take n ds) \<noteq> interrupted_placeholder"
  proof (intro allI impI)
    fix n assume "n < length ds"
    then show "(t0 @ d) @ concat (take n ds) \<noteq> interrupted_placeholder"
      using Cons.prems [rule_format, of "Suc n"] by simp
  qed
  then have "foldl add_text (t0 @ d) ds = (t0 @ d) @ concat ds"
    by (rule Cons.IH)
  moreover have "add_text t0 d = t0 @ d" using t0 by (simp add: add_text_def)
  ultimately show ?case by simp
qed

lemma foldl_add_text_concat:
  assumes "placeholder_free ds" and "ds \<noteq> []"
  shows "foldl add_text interrupted_placeholder ds = concat ds"
proof -
  obtain d ds' where ds: "ds = d # ds'" using assms(2) by (cases ds) auto
  have "\<forall>n < length ds'. d @ concat (take n ds') \<noteq> interrupted_placeholder"
  proof (intro allI impI)
    fix n assume n: "n < length ds'"
    then have "Suc n \<in> set [1..<length ds]" by (auto simp: ds simp del: upt_Suc)
    then have "concat (take (Suc n) ds) \<noteq> interrupted_placeholder"
      using assms(1) unfolding placeholder_free_def list_all_iff by blast
    then show "d @ concat (take n ds') \<noteq> interrupted_placeholder" by (simp add: ds)
  qed
  then have "foldl add_text d ds' = d @ concat ds'" by (rule foldl_add_text_append)
  moreover have "add_text interrupted_placeholder d = d" by (simp add: add_text_def)
  ultimately show ?thesis by (simp add: ds)
qed

lemma trim_interrupted_placeholder: "trim interrupted_placeholder = interrupted_placeholder"
  by (simp add: trim_def interrupted_placeholder_def is_space_def)

lemma interrupted_placeholder_not_empty: "interrupted_placeholder \<noteq> []"
  by (simp add: interrupted_placeholder_def)

text \<open>
  C2 (amended). For every round that concludes, through \<open>finishProcessingResponse\<close>
  (the stream is exhausted after its end was received) or through the error handler
  (an error was raised), the assistant turn created for the round (identified by the
  timestamp of the request-started entry, which is not \<open>0\<close> and new to the history)
  is not left with empty or blank text. When no delta arrived, its text is the
  placeholder it was created with. Otherwise its text is the concatenation of the
  deltas received, in order, when that is not blank (trimmed, when the round ended
  in an error), and else a fixed failure marker: \<open>failed_marker\<close> when the round
  finished, \<open>error_marker\<close> when it ended in an error. The description of the text
  is for streams in which no run of leading deltas spells exactly the placeholder.
\<close>

theorem concluded_round_leaves_nonblank_assistant_turn:
  assumes "makeClaudeRequest_guard w" and "round_concludes r w"
    and "startedReqTs r \<noteq> 0"
    and "\<forall>h \<in> set (apiConversationHistory w). hist_ts h \<noteq> Some (startedReqTs r)"
    and "ds = delta_texts (streamEvents r)"
  shows "nonblank_assistant_entry (startedReqTs r)
           (apiConversationHistory (fst (makeClaudeRequest_round r w)))
    \<and> (placeholder_free ds \<longrightarrow>
        getApiHistoryItem (startedReqTs r)
          (apiConversationHistory (fst (makeClaudeRequest_round r w))) =
        Some \<lparr>role = Assistant, hist_ts = Some (startedReqTs r),
              content = ContentBlocks
                [TextBlock
                   (if ds = [] then interrupted_placeholder
                    else case round_error r w of
                           None \<Rightarrow> if trim (concat ds) = [] then failed_marker
                                   else concat ds
                         | Some e \<Rightarrow> if trim (concat ds) = [] then error_marker
                                     else trim (concat ds))]\<rparr>)"
proof -
  note e = concluded_round_entry [OF assms(1-4) refl]
  have acc: "accumulated_reply (streamEvents r) =
               (if ds = [] then interrupted_placeholder else concat ds)"
    if "placeholder_free ds"
    using that foldl_add_text_concat [of ds]
    by (simp add: accumulated_reply_def assms(5) [symmetric])
  have "getApiHistoryItem (startedReqTs r)
          (apiConversationHistory (fst (makeClaudeRequest_round r w))) =
        Some \<lparr>role = Assistant, hist_ts = Some (startedReqTs r),
              content = ContentBlocks
                [TextBlock
                   (if ds = [] then interrupted_placeholder
                    else case round_error r w of
                           None \<Rightarrow> if trim (concat ds) = [] then failed_marker
                                   else concat ds
                         | Some e \<Rightarrow> if trim (concat ds) = [] then error_marker
                                     else trim (concat ds))]\<rparr>"
    if pf: "placeholder_free ds"
    using e [THEN conjunct2] acc [OF pf]
    by (auto simp: trim_interrupted_placeholder interrupted_placeholder_not_empty
        split: option.splits)
  then show ?thesis using e [THEN conjunct1] by blast
qed

theorem concluded_round_leaves_nonblank_assistant_turn_witness:
  "makeClaudeRequest_guard waiting_executor
   \<and> getApiHistoryItem 401
       (apiConversationHistory
          (fst (makeClaudeRequest_round
             (round_of 400 [text_event '' '' 410, plain_event (SuccessEnd example_metrics)])
             waiting_executor))) =
     Some \<lparr>role = Assistant, hist_ts = Some 401,
           content = ContentBlocks [TextBlock failed_marker]\<rparr>
   \<and> getApiHistoryItem 401
       (apiConversationHistory
          (fst (makeClaudeRequest_round
             (round_of 400 [text_event ''I'll '' 410, text_event ''search now'' 420,
                            plain_event (ErrorEnd None None)])
             waiting_executor))) =
     Some \<lparr>role = Assistant, hist_ts = Some 401,
           content = ContentBlocks [TextBlock ''I'll search now'']\<rparr>"
proof -
  let ?r1 = "round_of 400 [text_event '' '' 410, plain_event (SuccessEnd example_metrics)]"
  let ?r2 = "round_of 400 [text_event ''I'll '' 410, text_event ''search now'' 420,
                            plain_event (ErrorEnd None None)]"
  have g: "makeClaudeRequest_guard waiting_executor" by code_simp
  have f: "\<forall>h \<in> set (apiConversationHistory waiting_executor). hist_ts h \<noteq> Some 401"
    by (simp add: waiting_executor_def initial_executor_def)
  have n: "startedReqTs (round_of 400 evs) \<noteq> 0" "startedReqTs (round_of 400 evs) = 401"
    "streamEvents (round_of 400 evs) = evs" for evs
    by (simp_all add: round_of_def)
  have d1: "delta_texts [text_event '' '' 410, plain_event (SuccessEnd example_metrics)] = ['' '']"
    by code_simp
  have d2: "delta_texts [text_event ''I'll '' 410, text_event ''search now'' 420,
                         plain_event (ErrorEnd None None)] = [''I'll '', ''search now'']"
    by code_simp
  have p1: "placeholder_free ['' '']" by code_simp
  have p2: "placeholder_free [''I'll '', ''search now'']" by code_simp
  have e1: "round_error ?r1 waiting_executor = None" by code_simp
  have e2: "round_error ?r2 waiting_executor = Some (KoduError (STATUS 500) ''Unknown error'')"
    by code_simp
  have t1: "trim '' '' = []" and t2: "trim ''I'll search now'' = ''I'll search now''"
    by code_simp+
  have c1: "round_concludes ?r1 waiting_executor" by code_simp
  have c2: "round_concludes ?r2 waiting_executor" by code_simp
  show ?thesis
    using concluded_round_leaves_nonblank_assistant_turn
        [where w = waiting_executor and r = ?r1 and ds = "['' '']"]
      concluded_round_leaves_nonblank_assistant_turn
        [where w = waiting_executor and r = ?r2 and ds = "[''I'll '', ''search now'']"]
      g f n d1 d2 p1 p2 e1 e2 t1 t2 c1 c2
    by simp
qed

text \<open>
  A round whose stream ends without any delta keeps the placeholder it was created
  with, which is neither delta text nor one of the two failure markers; and a delta
  that arrives when the text so far spells the placeholder replaces that text.
\<close>

theorem concluded_round_without_delta_keeps_placeholder:
  "round_concludes (round_of 400 [plain_event (SuccessEnd example_metrics)]) waiting_executor
   \<and> delta_texts [plain_event (SuccessEnd example_metrics)] = []
   \<and> getApiHistoryItem 401
       (apiConversationHistory
          (fst (makeClaudeRequest_round
             (round_of 400 [plain_event (SuccessEnd example_metrics)])
             waiting_executor))) =
     Some \<lparr>role = Assistant, hist_ts = Some 401,
           content = ContentBlocks
             [TextBlock ''the response was interrupted in the middle of processing'']\<rparr>
   \<and> failed_marker \<noteq> ''the response was interrupted in the middle of processing''
   \<and> error_marker \<noteq> ''the response was interrupted in the middle of processing''
   \<and> getApiHistoryItem 401
       (apiConversationHistory
          (fst (makeClaudeRequest_round
             (round_of 400
                [text_event ''the response was interrupted in the middle of processing'' 410,
                 text_event '' again'' 420, plain_event (SuccessEnd example_metrics)])
             waiting_executor))) =
     Some \<lparr>role = Assistant, hist_ts = Some 401,
           content = ContentBlocks [TextBlock '' again'']\<rparr>"
  by code_simp

section \<open>The error handler\<close>

text \<open>
  C3. For an \<open>UNAUTHORIZED\<close> or \<open>PAYMENT_REQUIRED\<close> error the handler writes a
  notice entry for the user, sets the state to \<open>IDLE\<close> and returns: it asks nothing
  (the only call recorded is the reset of the tool state) and does not call
  \<open>makeClaudeRequest\<close> (second component \<open>False\<close>). For a provider error or an
  unknown error it asks the user whether to retry; on \<open>yesButtonTapped\<close> or
  \<open>messageResponse\<close> it sets the state to \<open>WAITING_FOR_API\<close> and calls
  \<open>makeClaudeRequest\<close> again, otherwise it sets the state to \<open>COMPLETED\<close> and returns.
  A round begun under the guard that raises an error is handed to the handler, and
  \<open>makeClaudeRequest\<close> goes on to the next round exactly when the handler says so.
\<close>

theorem handleApiError_fatal_or_retry:
  "(error_type err = UNAUTHORIZED \<or> error_type err = PAYMENT_REQUIRED \<longrightarrow>
      \<not> snd (handleApiError a s err w)
      \<and> state (fst (handleApiError a s err w)) = IDLE
      \<and> events (fst (handleApiError a s err w)) = events w @ [ResetToolState]
      \<and> claudeMessages (fst (handleApiError a s err w)) =
          claudeMessages
            (sayEntry (if error_type err = PAYMENT_REQUIRED then Say_payment_required
                       else Say_unauthorized) (Some (message err)) s False w))
   \<and> (error_type err = API_ERROR \<or> error_type err = UNKNOWN_ERROR \<longrightarrow>
      events (fst (handleApiError a s err w)) =
        events w @ [ResetToolState, AskIssued Ask_api_req_failed (message err)]
      \<and> (if response a = yesButtonTapped \<or> response a = messageResponse
          then snd (handleApiError a s err w)
               \<and> state (fst (handleApiError a s err w)) = WAITING_FOR_API
          else \<not> snd (handleApiError a s err w)
               \<and> state (fst (handleApiError a s err w)) = COMPLETED))
   \<and> (makeClaudeRequest_guard w0 \<and> round_error r w0 = Some e \<longrightarrow>
      makeClaudeRequest (r # rs) w0 =
        (if snd (handleApiError (retryResponse r) (errorSayTs r) (classify_error e)
                   (exec (fst (response_end r w0))))
         then makeClaudeRequest rs
                (fst (handleApiError (retryResponse r) (errorSayTs r) (classify_error e)
                        (exec (fst (response_end r w0)))))
         else Returned
                (fst (handleApiError (retryResponse r) (errorSayTs r) (classify_error e)
                        (exec (fst (response_end r w0)))))))"
proof -
  have driver: "makeClaudeRequest (r # rs) w0 =
        (if snd (handleApiError (retryResponse r) (errorSayTs r) (classify_error e)
                   (exec (fst (response_end r w0))))
         then makeClaudeRequest rs
                (fst (handleApiError (retryResponse r) (errorSayTs r) (classify_error e)
                        (exec (fst (response_end r w0)))))
         else Returned
                (fst (handleApiError (retryResponse r) (errorSayTs r) (classify_error e)
                        (exec (fst (response_end r w0))))))"
    if g: "makeClaudeRequest_guard w0" and e: "round_error r w0 = Some e"
  proof -
    have na: "\<not> isAborting w0" using g by (simp add: makeClaudeRequest_guard_def)
    have "makeClaudeRequest_round r w0 =
            handleApiError (retryResponse r) (errorSayTs r) (classify_error e)
              (exec (fst (response_end r w0)))"
      using na e by (simp add: round_shape)
    then show ?thesis using g by (simp add: Let_def)
  qed
  show ?thesis
    using driver
    by (auto simp: handleApiError_events handleApiError_messages handleApiError_outcome)
qed

theorem handleApiError_fatal_or_retry_witness:
  "state (fst (handleApiError \<lparr>response = yesButtonTapped, resp_text = None, images = None\<rparr> 7
            \<lparr>error_type = UNAUTHORIZED, message = ''denied''\<rparr> waiting_executor)) = IDLE
   \<and> \<not> snd (handleApiError \<lparr>response = yesButtonTapped, resp_text = None, images = None\<rparr> 7
            \<lparr>error_type = UNAUTHORIZED, message = ''denied''\<rparr> waiting_executor)
   \<and> events (fst (handleApiError \<lparr>response = yesButtonTapped, resp_text = None, images = None\<rparr> 7
            \<lparr>error_type = UNAUTHORIZED, message = ''denied''\<rparr> waiting_executor)) = [ResetToolState]
   \<and> snd (handleApiError \<lparr>response = yesButtonTapped, resp_text = None, images = None\<rparr> 7
            \<lparr>error_type = API_ERROR, message = ''overloaded''\<rparr> waiting_executor)
   \<and> events (fst (handleApiError \<lparr>response = yesButtonTapped, resp_text = None, images = None\<rparr> 7
            \<lparr>error_type = API_ERROR, message = ''overloaded''\<rparr> waiting_executor)) =
       [ResetToolState, AskIssued Ask_api_req_failed ''overloaded'']
   \<and> state (fst (handleApiError \<lparr>response = noButtonTapped, resp_text = None, images = None\<rparr> 7
            \<lparr>error_type = UNKNOWN_ERROR, message = ''boom''\<rparr> waiting_executor)) = COMPLETED
   \<and> makeClaudeRequest_guard waiting_executor
   \<and> round_error (error_round 100) waiting_executor =
       Some (KoduError (STATUS 500) ''Unknown error'')
   \<and> makeClaudeRequest [error_round 100] waiting_executor =
       Pending (fst (makeClaudeRequest_round (error_round 100) waiting_executor))"
proof -
  have g: "makeClaudeRequest_guard waiting_executor" by code_simp
  have e: "round_error (error_round 100) waiting_executor =
             Some (KoduError (STATUS 500) ''Unknown error'')" by code_simp
  have p: "makeClaudeRequest [error_round 100] waiting_executor =
             Pending (fst (makeClaudeRequest_round (error_round 100) waiting_executor))"
    by code_simp
  show ?thesis
    using handleApiError_fatal_or_retry
        [where err = "\<lparr>error_type = UNAUTHORIZED, message = ''denied''\<rparr>"
           and a = "\<lparr>response = yesButtonTapped, resp_text = None, images = None\<rparr>"
           and s = 7 and w = waiting_executor and ?w0.0 = waiting_executor
           and r = "error_round 100" and e = "KoduError (STATUS 500) ''Unknown error''"
           and rs = "[]"]
      handleApiError_fatal_or_retry
        [where err = "\<lparr>error_type = API_ERROR, message = ''overloaded''\<rparr>"
           and a = "\<lparr>response = yesButtonTapped, resp_text = None, images = None\<rparr>"
           and s = 7 and w = waiting_executor and ?w0.0 = waiting_executor
           and r = "error_round 100" and e = "KoduError (STATUS 500) ''Unknown error''"
           and rs = "[]"]
      handleApiError_fatal_or_retry
        [where err = "\<lparr>error_type = UNKNOWN_ERROR, message = ''boom''\<rparr>"
           and a = "\<lparr>response = noButtonTapped, resp_text = None, images = None\<rparr>"
           and s = 7 and w = waiting_executor and ?w0.0 = waiting_executor
           and r = "error_round 100" and e = "KoduError (STATUS 500) ''Unknown error''"
           and rs = "[]"]
      g e p
    by (simp add: waiting_executor_def initial_executor_def)
qed

section \<open>Three errors in a row\<close>



section \<open>Rounds without tool results\<close>

text \<open>
  C5. For every round that finishes (its stream ends without an error being raised)
  with zero tool results, the pending user content of the next round is exactly the
  fixed instruction that a tool must be used, the state is \<open>WAITING_FOR_API\<close>, and
  a new request round is started: \<open>makeClaudeRequest\<close> is called again and its guard
  lets the round begin.
\<close>

theorem round_without_tool_results_loops_with_corrective_prompt:
  assumes "makeClaudeRequest_guard w"
    and "round_error r w = None" and "end_of_stream_received (streamEvents r)"
    and "toolResults r = []"
  shows "snd (makeClaudeRequest_round r w)
    \<and> currentUserContent (fst (makeClaudeRequest_round r w)) = Some [TextBlock must_use_tool_prompt]
    \<and> state (fst (makeClaudeRequest_round r w)) = WAITING_FOR_API
    \<and> makeClaudeRequest_guard (fst (makeClaudeRequest_round r w))
    \<and> makeClaudeRequest (r # rs) w = makeClaudeRequest rs (fst (makeClaudeRequest_round r w))"
proof -
  have na: "\<not> isAborting w" using assms(1) by (simp add: makeClaudeRequest_guard_def)
  let ?ps = "fst (response_end r w)"
  have shape: "makeClaudeRequest_round r w =
      finishProcessingResponse [] (apiHistoryItem ?ps) (onFinalEndOfStream_flush r (replyTs r) ?ps)"
    using na assms(2,3,4) by (simp add: round_shape onFinalEndOfStream_def)
  have fl: "\<not> isRequestCancelled (onFinalEndOfStream_flush r (replyTs r) ?ps)"
       "\<not> isAborting (onFinalEndOfStream_flush r (replyTs r) ?ps)"
    using na by simp_all
  note f = finishProcessingResponse_no_results [OF fl, of "apiHistoryItem ?ps"]
  show ?thesis
    using f assms(1) by (simp add: shape makeClaudeRequest_guard_def Let_def)
qed


theorem round_without_tool_results_loops_with_corrective_prompt_witness:
  "makeClaudeRequest_guard waiting_executor
   \<and> round_error (round_of 400 [text_event ''Hello'' 410, plain_event (SuccessEnd example_metrics)])
        waiting_executor = None
   \<and> currentUserContent
        (fst (makeClaudeRequest_round
           (round_of 400 [text_event ''Hello'' 410, plain_event (SuccessEnd example_metrics)])
           waiting_executor)) = Some [TextBlock must_use_tool_prompt]
   \<and> state
        (fst (makeClaudeRequest_round
           (round_of 400 [text_event ''Hello'' 410, plain_event (SuccessEnd example_metrics)])
           waiting_executor)) = WAITING_FOR_API"
proof -
  have g: "makeClaudeRequest_guard waiting_executor" by code_simp
  have e: "round_error (round_of 400 [text_event ''Hello'' 410, plain_event (SuccessEnd example_metrics)])
        waiting_executor = None" by code_simp
  have s: "end_of_stream_received
             (streamEvents (round_of 400
                [text_event ''Hello'' 410, plain_event (SuccessEnd example_metrics)]))"
    by code_simp
  have t: "toolResults (round_of 400 [text_event ''Hello'' 410, plain_event (SuccessEnd example_metrics)]) = []"
    by (simp add: round_of_def)
  show ?thesis
    using round_without_tool_results_loops_with_corrective_prompt [OF g e s t] g e by simp
qed

section \<open>The guard of a request round\<close>

text \<open>
  C6. \<open>makeClaudeRequest\<close> is a no-op unless the state is exactly \<open>WAITING_FOR_API\<close>,
  a pending user content exists, the request is not cancelled and no abort is in
  progress: in every other case it returns the executor as it found it, whatever
  rounds the environment would offer (no field changes, no history entry is written,
  no stream is opened, nothing is asked).
\<close>

theorem makeClaudeRequest_noop_outside_guard:
  assumes "state w \<noteq> WAITING_FOR_API \<or> currentUserContent w = None
           \<or> isRequestCancelled w \<or> isAborting w"
  shows "makeClaudeRequest rs w = Returned w"
  using assms by (cases rs) (auto simp: makeClaudeRequest_guard_def)

theorem makeClaudeRequest_noop_outside_guard_witness:
  "state initial_executor \<noteq> WAITING_FOR_API
   \<and> makeClaudeRequest [] initial_executor = Returned initial_executor"
  using makeClaudeRequest_noop_outside_guard [of initial_executor "[]"]
  by (simp add: initial_executor_def)

section \<open>Forced flushes\<close>

text \<open>
  C7 (amended). For every buffer whose text is not blank, every reply identity other
  than \<open>0\<close> and every clock value, a forced flush empties the text buffer and hands
  exactly the buffered text to the store's append for that identity: the text is
  appended to the entry with that identity, and every other entry is as it was;
  neither the size threshold nor the time of the last flush matter. A buffer holding
  only white space is left as it is, with the whole executor, whatever the reply
  identity and whether the flush is forced or not.
\<close>

theorem forced_flush_persists_nonblank_buffer:
  "(trim (textBuffer w) \<noteq> [] \<and> i \<noteq> 0 \<and> getMessageById i (claudeMessages w) = Some m \<longrightarrow>
      textBuffer (flushTextBuffer now (Some i) True w) = []
      \<and> claudeMessages (flushTextBuffer now (Some i) True w) =
          appendToClaudeMessage i (textBuffer w) (claudeMessages w)
      \<and> getMessageById i (claudeMessages (flushTextBuffer now (Some i) True w)) =
          Some (m\<lparr>msg_text :=
                    Some ((case msg_text m of None \<Rightarrow> [] | Some s \<Rightarrow> s) @ textBuffer w)\<rparr>)
      \<and> (\<forall>j. j \<noteq> i \<longrightarrow>
            getMessageById j (claudeMessages (flushTextBuffer now (Some i) True w)) =
            getMessageById j (claudeMessages w)))
   \<and> (trim (textBuffer w) = [] \<longrightarrow> flushTextBuffer now replyId force w = w)"
proof (intro conjI impI)
  assume "trim (textBuffer w) = []"
  then show "flushTextBuffer now replyId force w = w"
    by (simp add: flushTextBuffer_def split: option.splits)
qed (simp_all add: flushTextBuffer_def Let_def postStateToWebview_def
      getMessageById_append_same getMessageById_append_other)

theorem forced_flush_persists_nonblank_buffer_witness:
  "textBuffer (flushTextBuffer 3 (Some 7) True
      (initial_executor\<lparr>textBuffer := ''search now'',
         claudeMessages := [say_entry 7 Say_text ''I'll '']\<rparr>)) = []
   \<and> getMessageById 7 (claudeMessages (flushTextBuffer 3 (Some 7) True
      (initial_executor\<lparr>textBuffer := ''search now'',
         claudeMessages := [say_entry 7 Say_text ''I'll '']\<rparr>))) =
      Some (say_entry 7 Say_text ''I'll search now'')
   \<and> trim (textBuffer (initial_executor\<lparr>textBuffer := [CHR 0x0A, CHR '' ''],
         claudeMessages := [say_entry 7 Say_text ''I'll '']\<rparr>)) = []
   \<and> flushTextBuffer 3 (Some 7) False
        (initial_executor\<lparr>textBuffer := [CHR 0x0A, CHR '' ''],
           claudeMessages := [say_entry 7 Say_text ''I'll '']\<rparr>) =
      initial_executor\<lparr>textBuffer := [CHR 0x0A, CHR '' ''],
           claudeMessages := [say_entry 7 Say_text ''I'll '']\<rparr>"
  using forced_flush_persists_nonblank_buffer
    [where w = "initial_executor\<lparr>textBuffer := ''search now'',
           claudeMessages := [say_entry 7 Say_text ''I'll '']\<rparr>"
       and i = 7 and m = "say_entry 7 Say_text ''I'll ''" and now = 3]
    forced_flush_persists_nonblank_buffer
    [where w = "initial_executor\<lparr>textBuffer := [CHR 0x0A, CHR '' ''],
           claudeMessages := [say_entry 7 Say_text ''I'll '']\<rparr>"
       and now = 3 and replyId = "Some 7" and force = False]
  by (simp add: initial_executor_def say_entry_def trim_def is_space_def)

theorem forced_flush_keeps_blank_buffer:
  "textBuffer (flushTextBuffer 100 (Some 7) True
      (initial_executor\<lparr>textBuffer := '' '',
         claudeMessages := [say_entry 7 Say_text ''I'll '']\<rparr>)) = '' ''
   \<and> claudeMessages (flushTextBuffer 100 (Some 7) True
      (initial_executor\<lparr>textBuffer := '' '',
         claudeMessages := [say_entry 7 Say_text ''I'll '']\<rparr>)) =
      [say_entry 7 Say_text ''I'll '']"
  by (simp add: flushTextBuffer_def initial_executor_def trim_def is_space_def)

section \<open>Empty input\<close>

text \<open>
  C8 (amended). When no abort is in progress and the input is empty (an empty content
  list, or a first text block whose text is blank), \<open>startTask\<close> sets the pending
  user content to the continuation prompt and the state to \<open>WAITING_FOR_API\<close>
  before it begins the request round, and so does \<open>resumeTask\<close> when the state is
  \<open>WAITING_FOR_USER\<close>; the guard of \<open>makeClaudeRequest\<close> then lets the round begin.
  In any other state \<open>resumeTask\<close> returns the executor as it found it (it only logs
  an error), whatever its input.
\<close>

theorem empty_input_becomes_continuation_prompt:
  assumes "\<not> isAborting w"
    and "c = [] \<or> (\<exists>t rest. c = TextBlock t # rest \<and> trim t = [])"
    and "prepared = w\<lparr>state := WAITING_FOR_API,
                      currentUserContent := Some [TextBlock continuation_prompt],
                      isRequestCancelled := False, abortController := Some False,
                      consecutiveErrorCount := 0\<rparr>"
  shows "startTask rs c w = makeClaudeRequest rs prepared
    \<and> (state w = WAITING_FOR_USER \<longrightarrow> resumeTask rs c w = makeClaudeRequest rs prepared)
    \<and> (state w \<noteq> WAITING_FOR_USER \<longrightarrow> (\<forall>c'. resumeTask rs c' w = Returned w))
    \<and> makeClaudeRequest_guard prepared
    \<and> makeClaudeRequest [] prepared = Pending prepared"
proof -
  have swap: "w\<lparr>state := WAITING_FOR_API,
                 currentUserContent := Some [TextBlock continuation_prompt],
                 isRequestCancelled := False, consecutiveErrorCount := 0,
                 abortController := Some False\<rparr> = prepared"
    unfolding assms(3) by (cases w) simp
  have norm: "normalizeUserContent c = [TextBlock continuation_prompt]"
    using assms(2) by (auto simp: normalizeUserContent_def)
  have g: "makeClaudeRequest_guard prepared"
    using assms(1) by (simp add: assms(3) makeClaudeRequest_guard_def)
  have st: "startTask rs c w = makeClaudeRequest rs prepared"
    using assms(1) norm by (simp add: startTask_def assms(3))
  have re: "state w = WAITING_FOR_USER \<Longrightarrow> resumeTask rs c w = makeClaudeRequest rs prepared"
    using assms(1) norm by (simp add: resumeTask_def swap)
  have other: "state w \<noteq> WAITING_FOR_USER \<Longrightarrow> resumeTask rs c' w = Returned w" for c'
    using assms(1) by (simp add: resumeTask_def)
  show ?thesis using st re other g by simp
qed

theorem empty_input_becomes_continuation_prompt_witness:
  "startTask [] [] initial_executor =
     Pending (initial_executor\<lparr>state := WAITING_FOR_API,
                currentUserContent := Some [TextBlock continuation_prompt],
                abortController := Some False\<rparr>)
   \<and> resumeTask [] [TextBlock ''  ''] (initial_executor\<lparr>state := WAITING_FOR_USER\<rparr>) =
     Pending (initial_executor\<lparr>state := WAITING_FOR_API,
                currentUserContent := Some [TextBlock continuation_prompt],
                abortController := Some False\<rparr>)
   \<and> state initial_executor \<noteq> WAITING_FOR_USER
   \<and> resumeTask [] [TextBlock ''go on''] initial_executor = Returned initial_executor"
proof -
  have b: "trim ''  '' = []" by code_simp
  show ?thesis
    using empty_input_becomes_continuation_prompt
        [of initial_executor "[]" _ "[]", OF _ _ refl]
      empty_input_becomes_continuation_prompt
        [of "initial_executor\<lparr>state := WAITING_FOR_USER\<rparr>" "[TextBlock ''  '']" _ "[]",
         OF _ _ refl] b
    by (simp add: initial_executor_def)
qed

text \<open>
  In state \<open>IDLE\<close> \<open>resumeTask\<close> changes nothing; \<open>newMessage\<close> does not
  normalise its input: on an empty list it raises, on a blank text it keeps the blank
  text as the pending user content.
\<close>

theorem empty_input_not_normalised_everywhere:
  "resumeTask [] [] initial_executor = Returned initial_executor
   \<and> newMessage [] 1 [] initial_executor =
       Threw (JsError ''TypeError'')
         (initial_executor\<lparr>state := WAITING_FOR_API, abortController := Some False,
            currentUserContent := Some []\<rparr>)
   \<and> newMessage [] 1 [TextBlock '' ''] initial_executor =
       Pending
         (initial_executor\<lparr>state := WAITING_FOR_API, abortController := Some False,
            currentUserContent := Some [TextBlock '' ''],
            claudeMessages := [say_entry 1 Say_user_feedback '' '']\<rparr>)"
  by (simp add: resumeTask_def newMessage_def initial_executor_def sayEntry_def
      say_entry_def makeClaudeRequest_guard_def)

section \<open>The first exchange cannot be cancelled\<close>

text \<open>
  C9. When the message list holds exactly two messages, \<open>cancelCurrentRequest\<close>
  returns at once and leaves the executor as it found it: the request-cancelled flag
  is not set, the state does not become \<open>ABORTED\<close>, no entry is rewritten and no
  resume question is asked. An \<open>abortTask\<close> in that situation only tells the tool
  executor to abort and resets the per-round state (state \<open>WAITING_FOR_USER\<close>); both
  histories are as before and the only calls made are those two.
\<close>

theorem cancel_returns_at_once_on_two_messages:
  assumes "length (claudeMessages w) = 2"
  shows "cancelCurrentRequest parse stringify w = Returned w
    \<and> (\<not> isAborting w \<longrightarrow>
         (\<exists>w'. abortTask parse stringify now w = Returned w'
            \<and> claudeMessages w' = claudeMessages w
            \<and> apiConversationHistory w' = apiConversationHistory w
            \<and> events w' = events w @ [ToolAbortTask, PostStateToWebview]
            \<and> state w' = WAITING_FOR_USER))"
  using assms
  by (auto simp: cancelCurrentRequest_def abortTask_def resetState_def emit_def
      postStateToWebview_def)

theorem cancel_returns_at_once_on_two_messages_witness:
  "length (claudeMessages two_message_executor) = 2
   \<and> cancelCurrentRequest example_parse example_stringify two_message_executor =
       Returned two_message_executor
   \<and> (\<exists>w'. abortTask example_parse example_stringify 9 two_message_executor = Returned w'
         \<and> claudeMessages w' = claudeMessages two_message_executor
         \<and> events w' = [ToolAbortTask, PostStateToWebview]
         \<and> state w' = WAITING_FOR_USER)"
proof -
  have h: "length (claudeMessages two_message_executor) = 2"
    by (simp add: two_message_executor_def initial_executor_def)
  have n: "\<not> isAborting two_message_executor" "events two_message_executor = []"
    by (simp_all add: two_message_executor_def initial_executor_def)
  show ?thesis
    using cancel_returns_at_once_on_two_messages [OF h, of example_parse example_stringify 9] h n
    by auto
qed

section \<open>Answers to asks are routed to the last ask\<close>

text \<open>
  C10. \<open>handleAskResponse\<close> takes no correlation identity from its caller. For every
  stored message list it hands the answer to the ask register under the timestamp of
  the most recent message of type ask; when the list holds no message of type ask,
  the call leaves the executor unchanged.
\<close>

theorem handleAskResponse_resolves_last_ask:
  "((\<forall>m \<in> set (claudeMessages w). msg_type m \<noteq> Ask) \<longrightarrow>
      handleAskResponse resp txt imgs w = w)
   \<and> (claudeMessages w = pre @ m # post \<and> msg_type m = Ask
        \<and> (\<forall>x \<in> set post. msg_type x \<noteq> Ask) \<longrightarrow>
      handleAskResponse resp txt imgs w =
        w\<lparr>events := events w @ [AskHandleResponse (ts m) resp txt imgs]\<rparr>)"
proof (intro conjI impI)
  assume "\<forall>m \<in> set (claudeMessages w). msg_type m \<noteq> Ask"
  then have "find (\<lambda>m. msg_type m = Ask) (rev (claudeMessages w)) = None"
    by (simp add: find_None_iff)
  then show "handleAskResponse resp txt imgs w = w"
    by (simp add: handleAskResponse_def)
next
  assume a: "claudeMessages w = pre @ m # post \<and> msg_type m = Ask
        \<and> (\<forall>x \<in> set post. msg_type x \<noteq> Ask)"
  then have "find (\<lambda>m. msg_type m = Ask) (rev (claudeMessages w)) = Some m"
    using find_rev_last [of "\<lambda>m. msg_type m = Ask" m post pre] by simp
  then show "handleAskResponse resp txt imgs w =
        w\<lparr>events := events w @ [AskHandleResponse (ts m) resp txt imgs]\<rparr>"
    by (simp add: handleAskResponse_def emit_def)
qed

theorem handleAskResponse_resolves_last_ask_witness:
  "handleAskResponse yesButtonTapped None None initial_executor = initial_executor
   \<and> handleAskResponse yesButtonTapped None None
       (initial_executor\<lparr>claudeMessages :=
          [ask_entry 4 Ask_tool ''{}'', ask_entry 5 Ask_api_req_failed ''failed'',
           say_entry 6 Say_text ''hello'']\<rparr>) =
     initial_executor\<lparr>claudeMessages :=
          [ask_entry 4 Ask_tool ''{}'', ask_entry 5 Ask_api_req_failed ''failed'',
           say_entry 6 Say_text ''hello''],
        events := [AskHandleResponse 5 yesButtonTapped None None]\<rparr>"
  using handleAskResponse_resolves_last_ask
    [of initial_executor yesButtonTapped None None "[]" "ask_entry 0 Ask_tool []" "[]"]
    handleAskResponse_resolves_last_ask
    [of "initial_executor\<lparr>claudeMessages :=
          [ask_entry 4 Ask_tool ''{}'', ask_entry 5 Ask_api_req_failed ''failed'',
           say_entry 6 Say_text ''hello'']\<rparr>"
        yesButtonTapped None None "[ask_entry 4 Ask_tool ''{}'']"
        "ask_entry 5 Ask_api_req_failed ''failed''" "[say_entry 6 Say_text ''hello'']"]
  by (simp add: initial_executor_def ask_entry_def say_entry_def)

end
